theory Spec2Isabelle
  imports Main
begin

section \<open>Errors\<close>

text \<open>
  Every exception the modelled code can raise is a value. The classes imported from
  @ledgerhq/errors keep their names; \<open>InvariantViolation\<close> is the error thrown by
  \<open>invariant(cond, msg)\<close>, \<open>TypeError\<close> and \<open>RangeError\<close> are the built-in JavaScript
  exceptions, \<open>Error\<close> is \<open>new Error(msg)\<close> (also used for rejections of the chain API,
  whose message the code inspects). \<open>UnsupportedFamily\<close> and \<open>EncodingError\<close> are named
  by the specification's error taxonomy; no source path constructs either of them.
\<close>

datatype error =
    FeeNotLoaded
  | FeeRequired
  | FeeTooHigh
  | NotEnoughBalance
  | NotEnoughBalanceBecauseDestinationNotCreated string
  | InvalidAddress string
  | InvalidAddressBecauseDestinationIsAlsoSource
  | RecipientRequired
  | NetworkDown
  | InvariantViolation string
  | TypeError string
  | RangeError string
  | Error string
  | UnsupportedFamily
  | EncodingError

text \<open>
  \<open>e.message\<close>. The classes of @ledgerhq/errors are always built here with the empty
  message, and such an error then carries the name of its class as its message; the
  argument the model keeps for \<open>InvalidAddress\<close> is the field \<open>currencyName\<close>, and for
  \<open>NotEnoughBalanceBecauseDestinationNotCreated\<close> the field \<open>minimalAmount\<close>.
\<close>

fun message :: "error \<Rightarrow> string" where
  "message (Error m) = m"
| "message (InvariantViolation m) = m"
| "message (TypeError m) = m"
| "message (RangeError m) = m"
| "message FeeNotLoaded = ''FeeNotLoaded''"
| "message FeeRequired = ''FeeRequired''"
| "message FeeTooHigh = ''FeeTooHigh''"
| "message NotEnoughBalance = ''NotEnoughBalance''"
| "message (NotEnoughBalanceBecauseDestinationNotCreated _) =
     ''NotEnoughBalanceBecauseDestinationNotCreated''"
| "message (InvalidAddress _) = ''InvalidAddress''"
| "message InvalidAddressBecauseDestinationIsAlsoSource =
     ''InvalidAddressBecauseDestinationIsAlsoSource''"
| "message RecipientRequired = ''RecipientRequired''"
| "message NetworkDown = ''NetworkDown''"
| "message UnsupportedFamily = []"
| "message EncodingError = []"

section \<open>Operations and accounts\<close>

text \<open>
  Amounts are BigNumber values holding integers in the chain's smallest unit; the
  value \<open>None\<close> is BigNumber's NaN. Dates are valid \<open>Date\<close> objects, read as their
  millisecond timestamps (what \<open>b.date - a.date\<close> converts them to). An absent
  \<open>transactionSequenceNumber\<close> is \<open>None\<close>.
\<close>

type_synonym bignum = "int option"

datatype optype = IN | OUT

record operation =
  id_op :: string
  hash :: string
  accountId :: string
  type_op :: optype
  value_op :: bignum
  fee_op :: bignum
  blockHeight_op :: "int option"
  senders :: "string list"
  recipients :: "string list"
  date :: int
  transactionSequenceNumber :: "int option"
  extra_tag :: "string option"

record currency =
  currency_id :: string
  currency_name :: string
  family :: string

record account =
  id_acc :: string
  currency_acc :: currency
  freshAddress :: string
  endpointConfig :: "string option"
  balance :: bignum
  blockHeight :: int
  operations :: "operation list"
  pendingOperations :: "operation list"
  lastSyncDate :: int

section \<open>mergeOps\<close>

text \<open>
  \<open>Array.prototype.sort\<close> with a comparator, as ECMAScript 2019 specifies it: a stable
  sort that puts \<open>a\<close> before \<open>b\<close> when \<open>cmp a b < 0\<close> and keeps the input order when
  \<open>cmp a b = 0\<close>. The array sorted in \<open>mergeOps\<close> is the fresh one \<open>concat\<close> returns, so
  the in-place update is not visible elsewhere.
\<close>

fun insert_js :: "('a \<Rightarrow> 'a \<Rightarrow> int) \<Rightarrow> 'a \<Rightarrow> 'a list \<Rightarrow> 'a list" where
  "insert_js cmp x [] = [x]"
| "insert_js cmp x (y # ys) =
     (if cmp x y \<le> 0 then x # y # ys else y # insert_js cmp x ys)"

definition sort_js :: "('a \<Rightarrow> 'a \<Rightarrow> int) \<Rightarrow> 'a list \<Rightarrow> 'a list" where
  "sort_js cmp xs = foldr (insert_js cmp) xs []"

text \<open>
  \<^verbatim>\<open>
  function mergeOps(existing, newFetched) {
    const ids = existing.map(o => o.id);
    const all = existing.concat(newFetched.filter(o => !ids.includes(o.id)));
    return all.sort((a, b) => b.date - a.date);
  }
  \<close>
\<close>

definition mergeOps ::
  "('a operation_scheme) list \<Rightarrow> ('a operation_scheme) list \<Rightarrow> ('a operation_scheme) list"
where
  "mergeOps existing newFetched =
     (let ids = map id_op existing;
          all = existing @ filter (\<lambda>p. id_op p \<notin> set ids) newFetched
      in sort_js (\<lambda>a b. date b - date a) all)"

text \<open>The two properties the specification asks of an operation list.\<close>

definition strictly_descending_by_date :: "('a operation_scheme) list \<Rightarrow> bool" where
  "strictly_descending_by_date ops = sorted_wrt (\<lambda>a b. date a > date b) ops"

definition descending_by_date :: "('a operation_scheme) list \<Rightarrow> bool" where
  "descending_by_date ops = sorted_wrt (\<lambda>a b. date a \<ge> date b) ops"

definition unique_ids :: "('a operation_scheme) list \<Rightarrow> bool" where
  "unique_ids ops = distinct (map id_op ops)"

section \<open>BigNumber arithmetic\<close>

text \<open>
  The BigNumber methods the code calls. Arithmetic with NaN gives NaN and every
  comparison with NaN is false, as in bignumber.js.
\<close>

definition plus_bn :: "bignum \<Rightarrow> bignum \<Rightarrow> bignum" where
  "plus_bn a b = (case (a, b) of (Some x, Some y) \<Rightarrow> Some (x + y) | _ \<Rightarrow> None)"

definition minus_bn :: "bignum \<Rightarrow> bignum \<Rightarrow> bignum" where
  "minus_bn a b = (case (a, b) of (Some x, Some y) \<Rightarrow> Some (x - y) | _ \<Rightarrow> None)"

definition times_bn :: "bignum \<Rightarrow> bignum \<Rightarrow> bignum" where
  "times_bn a b = (case (a, b) of (Some x, Some y) \<Rightarrow> Some (x * y) | _ \<Rightarrow> None)"

definition gt_bn :: "bignum \<Rightarrow> bignum \<Rightarrow> bool" where
  "gt_bn a b = (case (a, b) of (Some x, Some y) \<Rightarrow> x > y | _ \<Rightarrow> False)"

definition lt_bn :: "bignum \<Rightarrow> bignum \<Rightarrow> bool" where
  "lt_bn a b = (case (a, b) of (Some x, Some y) \<Rightarrow> x < y | _ \<Rightarrow> False)"

definition eq_bn :: "bignum \<Rightarrow> bignum \<Rightarrow> bool" where
  "eq_bn a b = (case (a, b) of (Some x, Some y) \<Rightarrow> x = y | _ \<Rightarrow> False)"

section \<open>Remote transactions and txToOperation\<close>

text \<open>
  A transaction as the chain API returns it, reduced to the fields \<open>txToOperation\<close>
  destructures. The helpers \<open>parseAPIValue\<close> and \<open>parseAPICurrencyObject\<close> live in the
  API module, outside the modelled files: the record holds their results
  (\<open>outcome_fee\<close> is \<open>parseAPIValue(fee)\<close>, \<open>deliveredAmount\<close> is
  \<open>parseAPICurrencyObject(deliveredAmount)\<close> where the field is present), and
  \<open>timestamp\<close> is the time value of \<open>new Date(timestamp)\<close>.
\<close>

record tx =
  tx_id :: string
  sequence :: int
  outcome_fee :: bignum
  deliveredAmount :: "bignum option"
  ledgerVersion :: int
  timestamp :: int
  source_address :: string
  destination_address :: string
  destination_tag :: "string option"

fun optype_string :: "optype \<Rightarrow> string" where
  "optype_string IN = ''IN''"
| "optype_string OUT = ''OUT''"

text \<open>
  \<open>Number.isNaN(feeValue)\<close> is applied to a BigNumber object, never to a number, so it
  is always false and the fee is always added on an outgoing operation.
\<close>

definition txToOperation :: "'a account_scheme \<Rightarrow> tx \<Rightarrow> operation" where
  "txToOperation account t =
     (let type = (if source_address t = freshAddress account then OUT else IN);
          value0 = (case deliveredAmount t of Some v \<Rightarrow> v | None \<Rightarrow> Some 0);
          feeValue = outcome_fee t;
          value1 = (if type = OUT then plus_bn value0 feeValue else value0)
      in \<lparr>id_op = id_acc account @ ''-'' @ tx_id t @ ''-'' @ optype_string type,
          hash = tx_id t,
          accountId = id_acc account,
          type_op = type,
          value_op = value1,
          fee_op = feeValue,
          blockHeight_op = Some (ledgerVersion t),
          senders = [source_address t],
          recipients = [destination_address t],
          date = timestamp t,
          transactionSequenceNumber = Some (sequence t),
          extra_tag = (case destination_tag t of
                         None \<Rightarrow> None
                       | Some g \<Rightarrow> if g = [] then None else Some g)\<rparr>)"

section \<open>The outside world\<close>

text \<open>
  The chain API, the device and the derivation utilities are external collaborators;
  their answers are parameters of the model. A rejected promise is \<open>Inl\<close> of the
  error. \<open>getServerInfo\<close> stands for the throttled helper followed by the parsing the
  callers do on its answer: \<open>completeLedgers.split("-")\<close> read as two numbers, and
  \<open>parseAPIValue(validatedLedger.reserveBaseXRP)\<close>. \<open>getAccountInfo\<close> answers with
  \<open>parseAPIValue(info.xrpBalance)\<close>. The flag \<open>finished\<close> is set by the subscriber at
  any time: \<open>finished env k\<close> is what the \<open>k\<close>-th read of the flag sees.
\<close>

record server_info =
  minLedgerVersion :: int
  maxLedgerVersion :: int
  reserveBaseXRP :: bignum

record env =
  connect :: "error option"
  getServerInfo :: "string option \<Rightarrow> error + server_info"
  getAccountInfo :: "string \<Rightarrow> error + bignum"
  getTransactions :: "string \<Rightarrow> int \<Rightarrow> int \<Rightarrow> error + tx list"
  finished :: "nat \<Rightarrow> bool"

text \<open>\<open>msg.includes(s)\<close>: \<open>s\<close> occurs in \<open>msg\<close> as a contiguous substring.\<close>

fun includes_str :: "string \<Rightarrow> string \<Rightarrow> bool" where
  "includes_str [] s = (s = [])"
| "includes_str (c # cs) s = (take (length s) (c # cs) = s \<or> includes_str cs s)"

definition remapError :: "error \<Rightarrow> error" where
  "remapError e =
     (if includes_str (message e) ''Unable to resolve host'' \<or> includes_str (message e) ''Network is down''
      then NetworkDown else e)"

section \<open>startSync\<close>

text \<open>
  JavaScript truthiness of an optional number, and \<open>a > b\<close> on optional numbers
  (a comparison with \<open>undefined\<close> is false).
\<close>

fun truthy_num :: "int option \<Rightarrow> bool" where
  "truthy_num None = False"
| "truthy_num (Some n) = (n \<noteq> 0)"

fun gt_num :: "int option \<Rightarrow> int option \<Rightarrow> bool" where
  "gt_num (Some a) (Some b) = (a > b)"
| "gt_num _ _ = False"

text \<open>
  The predicate of \<open>a.pendingOperations.filter\<close>: \<open>newest\<close> (the source calls it \<open>last\<close>) is the first element of the
  merged list (\<open>const [last] = operations\<close>), undefined when the list is empty.
\<close>

definition keepPending :: "operation list \<Rightarrow> operation \<Rightarrow> bool" where
  "keepPending ops oo =
     (\<not> list_ex (\<lambda>op. hash oo = hash op) ops \<and>
      (case ops of
         [] \<Rightarrow> False
       | newest # _ \<Rightarrow>
           truthy_num (transactionSequenceNumber newest) \<and>
           truthy_num (transactionSequenceNumber oo) \<and>
           gt_num (transactionSequenceNumber oo) (transactionSequenceNumber newest)))"

text \<open>
  The two state-update functions \<open>startSync\<close> emits. Each reads the clock
  (\<open>new Date()\<close>) when it is applied; \<open>now\<close> is that reading.
\<close>

definition touchLastSync :: "int \<Rightarrow> 'a account_scheme \<Rightarrow> 'a account_scheme" where
  "touchLastSync now a = a\<lparr>lastSyncDate := now\<rparr>"

definition syncUpdate ::
  "tx list \<Rightarrow> bignum \<Rightarrow> int \<Rightarrow> int \<Rightarrow> 'a account_scheme \<Rightarrow> 'a account_scheme"
where
  "syncUpdate transactions bal maxLedger now a =
     (let newOps = map (txToOperation a) transactions;
          ops = mergeOps (operations a) newOps;
          pending = filter (keepPending ops) (pendingOperations a)
      in a\<lparr>balance := bal, operations := ops, pendingOperations := pending,
           blockHeight := maxLedger, lastSyncDate := now\<rparr>)"

text \<open>
  What the observable does: the update functions passed to \<open>o.next\<close>, then how it
  ends. \<open>Unsubscribed\<close> is the silent \<open>return\<close> after the subscriber has left.
\<close>

datatype ending = Completed | Failed error | Unsubscribed

definition startSync ::
  "env \<Rightarrow> 'b account_scheme \<Rightarrow> (int \<Rightarrow> 'a account_scheme \<Rightarrow> 'a account_scheme) list \<times> ending"
where
  "startSync env acc =
     (case connect env of
        Some e \<Rightarrow> ([], Failed (remapError e))
      | None \<Rightarrow>
     if finished env 0 then ([], Unsubscribed) else
     (case getServerInfo env (endpointConfig acc) of
        Inl e \<Rightarrow> ([], Failed (remapError e))
      | Inr serverInfo \<Rightarrow>
     if finished env 1 then ([], Unsubscribed) else
     (case (case getAccountInfo env (freshAddress acc) of
              Inl e \<Rightarrow> if message e \<noteq> ''actNotFound'' then Inl e else Inr None
            | Inr bal \<Rightarrow> Inr (Some bal)) of
        Inl e \<Rightarrow> ([], Failed (remapError e))
      | Inr info \<Rightarrow>
     if finished env 2 then ([], Unsubscribed) else
     (case info of
        None \<Rightarrow> ([touchLastSync], Completed)
      | Some bal \<Rightarrow>
     if bal = None
     then ([], Failed (remapError (InvariantViolation
            (''Ripple: invalid balance=NaN for address '' @ freshAddress acc))))
     else
     (case getTransactions env (freshAddress acc)
             (max (if length (operations acc) = 0 then 0 else blockHeight acc)
                  (minLedgerVersion serverInfo))
             (maxLedgerVersion serverInfo) of
        Inl e \<Rightarrow> ([], Failed (remapError e))
      | Inr transactions \<Rightarrow>
     if finished env 3 then ([], Unsubscribed) else
     ([syncUpdate transactions bal (maxLedgerVersion serverInfo)], Completed))))))"

section \<open>getTransactionStatus\<close>

text \<open>
  The draft transaction of the Ripple bridge. \<open>fee_r\<close> is \<open>None\<close> when the field is
  null or undefined; a BigNumber object, whatever its value, is truthy.
\<close>

record ripple_transaction =
  amount_r :: bignum
  recipient_r :: string
  fee_r :: "bignum option"
  tag_r :: "int option"

text \<open>
  What the validator needs beyond the chain API: \<open>cachedRecipientIsNew\<close> (the cache
  and the lookup behind it), whether \<open>bs58check.decode\<close> accepts a string, and the
  text \<open>f.currency + " " + BigNumber(f.value).toFixed()\<close> built from
  \<open>formatAPICurrencyXRP\<close>.
\<close>

record status_env = env +
  cachedRecipientIsNew :: "string option \<Rightarrow> string \<Rightarrow> error + bool"
  bs58check_decodes :: "string \<Rightarrow> bool"
  formatMinimalAmount :: "bignum \<Rightarrow> string"

record transaction_status =
  errors :: "string \<rightharpoonup> error"
  warnings :: "string \<rightharpoonup> error"
  estimatedFees :: bignum
  amount_s :: bignum
  totalSpent :: bignum

definition getTransactionStatus ::
  "'e status_env_scheme \<Rightarrow> 'a account_scheme \<Rightarrow> ripple_transaction \<Rightarrow> error + transaction_status"
where
  "getTransactionStatus env a t =
     (case getServerInfo env (endpointConfig a) of
        Inl e \<Rightarrow> Inl e
      | Inr r \<Rightarrow>
     (let reserve = reserveBaseXRP r;
          fees = (case fee_r t of None \<Rightarrow> Some 0 | Some f \<Rightarrow> f);
          total = plus_bn (amount_r t) fees;
          amount = amount_r t;
          warnings0 =
            (if gt_bn amount (Some 0) \<and> gt_bn (times_bn fees (Some 10)) amount
             then [''feeTooHigh'' \<mapsto> FeeTooHigh] else Map.empty);
          errors0 =
            (case fee_r t of
               None \<Rightarrow> Inr [''fee'' \<mapsto> FeeNotLoaded]
             | Some f \<Rightarrow>
                 if eq_bn f (Some 0) then Inr [''fee'' \<mapsto> FeeRequired]
                 else if gt_bn total (minus_bn (balance a) reserve)
                 then Inr [''amount'' \<mapsto> NotEnoughBalance]
                 else if recipient_r t \<noteq> []
                 then (case cachedRecipientIsNew env (endpointConfig a) (recipient_r t) of
                         Inl e \<Rightarrow> Inl e
                       | Inr isNew \<Rightarrow>
                           if isNew \<and> lt_bn (amount_r t) reserve
                           then Inr [''amount'' \<mapsto>
                                  NotEnoughBalanceBecauseDestinationNotCreated
                                    (formatMinimalAmount env reserve)]
                           else Inr Map.empty)
                 else Inr Map.empty)
      in case errors0 of
           Inl e \<Rightarrow> Inl e
         | Inr errors1 \<Rightarrow>
             Inr \<lparr>errors =
                    (if recipient_r t = [] then errors1(''recipient'' \<mapsto> RecipientRequired)
                     else if freshAddress a = recipient_r t
                     then errors1(''recipient'' \<mapsto> InvalidAddressBecauseDestinationIsAlsoSource)
                     else if bs58check_decodes env (recipient_r t) then errors1
                     else errors1(''recipient'' \<mapsto> InvalidAddress (currency_name (currency_acc a)))),
                  warnings = warnings0,
                  estimatedFees = fees,
                  amount_s = amount,
                  totalSpent = total\<rparr>))"

section \<open>scanAccountsOnDevice\<close>

text \<open>
  The device and the derivation utilities. \<open>derivationPath env mode index\<close> is
  \<open>runDerivationScheme(getDerivationScheme({derivationMode, currency}), currency,
  {account: index})\<close>; \<open>clock env k\<close> is the reading of \<open>new Date()\<close> when the
  account number \<open>k\<close> is built.
\<close>

record scan_env = env +
  open_device :: "error option"
  derivationModes :: "string list"
  isIterableDerivationMode :: "string \<Rightarrow> bool"
  derivationModeSupportsIndex :: "string \<Rightarrow> nat \<Rightarrow> bool"
  derivationPath :: "string \<Rightarrow> nat \<Rightarrow> string"
  getAddress :: "string \<Rightarrow> string \<Rightarrow> error + string"
  getNewAccountPlaceholderName :: "nat \<Rightarrow> string \<Rightarrow> string"
  getAccountPlaceholderName :: "nat \<Rightarrow> string \<Rightarrow> string"
  clock :: "nat \<Rightarrow> int"

text \<open>The account object of a "discovered" event: an account with the scan's fields.\<close>

record discovered = account +
  seedIdentifier :: string
  derivationMode :: string
  name_acc :: string
  freshAddressPath :: string
  freshAddresses :: "(string \<times> string) list"
  index_acc :: nat
  archived :: "bool option"

text \<open>
  The scan's observable state: the accounts passed to \<open>o.next\<close>, the (mode, index)
  pairs whose address was requested from the device, and how often the flag
  \<open>finished\<close> has been read.
\<close>

record scan_state =
  emitted :: "discovered list"
  probed :: "(string \<times> nat) list"
  reads :: nat

datatype flow = Normal | Returned | Thrown error

definition accountId_of :: "currency \<Rightarrow> string \<Rightarrow> string \<Rightarrow> string" where
  "accountId_of cur address mode =
     ''ripplejs:2:'' @ currency_id cur @ '':'' @ address @ '':'' @ mode"

definition placeholderAccount ::
  "'e scan_env_scheme \<Rightarrow> currency \<Rightarrow> int \<Rightarrow> string \<Rightarrow> nat \<Rightarrow> string \<Rightarrow> nat \<Rightarrow> discovered"
where
  "placeholderAccount env cur maxLedger mode index address k =
     \<lparr>id_acc = accountId_of cur address mode,
      currency_acc = cur,
      freshAddress = address,
      endpointConfig = None,
      balance = Some 0,
      blockHeight = maxLedger,
      operations = [],
      pendingOperations = [],
      lastSyncDate = clock env k,
      seedIdentifier = address,
      derivationMode = mode,
      name_acc = getNewAccountPlaceholderName env index mode,
      freshAddressPath = derivationPath env mode index,
      freshAddresses = [(address, derivationPath env mode index)],
      index_acc = index,
      archived = Some False\<rparr>"

definition existingAccount ::
  "'e scan_env_scheme \<Rightarrow> currency \<Rightarrow> int \<Rightarrow> string \<Rightarrow> nat \<Rightarrow> string \<Rightarrow> bignum \<Rightarrow>
     tx list \<Rightarrow> nat \<Rightarrow> discovered"
where
  "existingAccount env cur maxLedger mode index address bal transactions k =
     (let account =
        \<lparr>id_acc = accountId_of cur address mode,
         currency_acc = cur,
         freshAddress = address,
         endpointConfig = None,
         balance = bal,
         blockHeight = maxLedger,
         operations = [],
         pendingOperations = [],
         lastSyncDate = clock env k,
         seedIdentifier = address,
         derivationMode = mode,
         name_acc = getAccountPlaceholderName env index mode,
         freshAddressPath = derivationPath env mode index,
         freshAddresses = [(address, derivationPath env mode index)],
         index_acc = index,
         archived = None\<rparr>
      in account\<lparr>operations := map (txToOperation account) transactions\<rparr>)"

text \<open>
  The inner \<open>for\<close> loop over the indices of one derivation mode, from the current
  index on. \<open>continue\<close> goes to the next index, \<open>break\<close> leaves the loop with
  \<open>Normal\<close>, \<open>return\<close> and \<open>throw\<close> leave \<open>main\<close>.
\<close>

fun scanIndices ::
  "'e scan_env_scheme \<Rightarrow> currency \<Rightarrow> server_info \<Rightarrow> string \<Rightarrow> nat list \<Rightarrow> scan_state \<Rightarrow>
     flow \<times> scan_state"
where
  "scanIndices env cur si mode [] st = (Normal, st)"
| "scanIndices env cur si mode (index # rest) st =
     (if \<not> derivationModeSupportsIndex env mode index then scanIndices env cur si mode rest st
      else
        let st1 = st\<lparr>probed := probed st @ [(mode, index)]\<rparr> in
        case getAddress env (derivationPath env mode index) mode of
          Inl e \<Rightarrow> (Thrown e, st1)
        | Inr address \<Rightarrow>
        let st2 = st1\<lparr>reads := reads st1 + 1\<rparr> in
        if finished env (reads st1) then (Returned, st2)
        else
        case getAccountInfo env address of
          Inl e \<Rightarrow>
            if message e \<noteq> ''actNotFound'' then (Thrown e, st2)
            else if mode = []
            then (Normal, st2\<lparr>emitted := emitted st2 @
                    [placeholderAccount env cur (maxLedgerVersion si) mode index address
                       (length (emitted st2))]\<rparr>)
            else (Normal, st2)
        | Inr bal \<Rightarrow>
        let st3 = st2\<lparr>reads := reads st2 + 1\<rparr> in
        if finished env (reads st2) then (Returned, st3)
        else if bal = None
        then (Thrown (InvariantViolation
                (''Ripple: invalid balance=NaN for address '' @ address)), st3)
        else
        case getTransactions env address (minLedgerVersion si) (maxLedgerVersion si) of
          Inl e \<Rightarrow> (Thrown e, st3)
        | Inr transactions \<Rightarrow>
        let st4 = st3\<lparr>reads := reads st3 + 1\<rparr> in
        if finished env (reads st3) then (Returned, st4)
        else
          scanIndices env cur si mode rest
            (st4\<lparr>emitted := emitted st4 @
               [existingAccount env cur (maxLedgerVersion si) mode index address bal
                  transactions (length (emitted st4))]\<rparr>))"

text \<open>The outer loop over the derivation modes.\<close>

fun scanModes ::
  "'e scan_env_scheme \<Rightarrow> currency \<Rightarrow> server_info \<Rightarrow> string list \<Rightarrow> scan_state \<Rightarrow>
     flow \<times> scan_state"
where
  "scanModes env cur si [] st = (Normal, st)"
| "scanModes env cur si (mode # modes) st =
     (let stopAt = (if isIterableDerivationMode env mode then 255 else 1 :: nat) in
      case scanIndices env cur si mode [0..<stopAt] st of
        (Normal, st') \<Rightarrow> scanModes env cur si modes st'
      | (fl, st') \<Rightarrow> (fl, st'))"

text \<open>
  \<open>main\<close> of the scan: the emitted accounts, the probed indices, and the end of the
  observable (\<open>o.complete()\<close>, \<open>o.error(e)\<close>, or nothing after an unsubscription).
\<close>

definition scanAccountsOnDevice ::
  "'e scan_env_scheme \<Rightarrow> currency \<Rightarrow> scan_state \<times> ending"
where
  "scanAccountsOnDevice env cur =
     (let st0 = \<lparr>emitted = [], probed = [], reads = 0\<rparr> in
      case open_device env of
        Some e \<Rightarrow> (st0, Failed e)
      | None \<Rightarrow>
      (case connect env of
         Some e \<Rightarrow> (st0, Failed e)
       | None \<Rightarrow>
      (case getServerInfo env None of
         Inl e \<Rightarrow> (st0, Failed e)
       | Inr si \<Rightarrow>
      (case scanModes env cur si (derivationModes env) st0 of
         (Normal, st) \<Rightarrow> (st, Completed)
       | (Returned, st) \<Rightarrow> (st, Unsubscribed)
       | (Thrown e, st) \<Rightarrow> (st, Failed e)))))"

section \<open>Buffers and hexadecimal strings\<close>

text \<open>
  A Buffer is a list of bytes, each a number below 256. \<open>Buffer.from(s, "hex")\<close>
  decodes two characters at a time and stops at the first pair that is not two
  hexadecimal digits; a trailing single character is dropped.
\<close>

type_synonym buffer = "nat list"

definition unhex :: "char \<Rightarrow> nat option" where
  "unhex c =
     (let n = (of_char c :: nat) in
      if 48 \<le> n \<and> n \<le> 57 then Some (n - 48)
      else if 97 \<le> n \<and> n \<le> 102 then Some (n - 87)
      else if 65 \<le> n \<and> n \<le> 70 then Some (n - 55)
      else None)"

fun hexDecode :: "string \<Rightarrow> buffer" where
  "hexDecode (a # b # rest) =
     (case (unhex a, unhex b) of
        (Some x, Some y) \<Rightarrow> (16 * x + y) # hexDecode rest
      | _ \<Rightarrow> [])"
| "hexDecode _ = []"

definition hexDigit :: "nat \<Rightarrow> char" where
  "hexDigit d = ''0123456789abcdef'' ! d"

text \<open>\<open>buf.toString("hex")\<close>.\<close>

definition hexEncode :: "buffer \<Rightarrow> string" where
  "hexEncode bytes = concat (map (\<lambda>b. [hexDigit (b div 16), hexDigit (b mod 16)]) bytes)"

text \<open>\<open>n.toString(16)\<close> of a BigNumber: no leading zeros, a minus sign, or "NaN".\<close>

fun toHex :: "nat \<Rightarrow> string" where
  "toHex n = (if n < 16 then [hexDigit n] else toHex (n div 16) @ [hexDigit (n mod 16)])"

declare toHex.simps [simp del]

definition toString16 :: "bignum \<Rightarrow> string" where
  "toString16 b =
     (case b of
        None \<Rightarrow> ''NaN''
      | Some i \<Rightarrow> if i < 0 then CHR ''-'' # toHex (nat (- i)) else toHex (nat i))"

text \<open>\<open>s.replace("0x", "")\<close>: the first occurrence of "0x", wherever it is, is removed.\<close>

fun replace0x :: "string \<Rightarrow> string" where
  "replace0x (c # d # cs) =
     (if c = CHR ''0'' \<and> d = CHR ''x'' then cs else c # replace0x (d # cs))"
| "replace0x cs = cs"

text \<open>The value of a buffer read as a big-endian number.\<close>

definition bigEndian :: "buffer \<Rightarrow> nat" where
  "bigEndian bytes = foldl (\<lambda>acc b. 256 * acc + b) 0 bytes"

section \<open>The transaction builders\<close>

text \<open>
  A field of the draft as JavaScript sees it. The declared type of the fee fields is
  \<open>BigNumber | string\<close>, possibly null or undefined; \<open>Num\<close> is a plain number, which
  the type does not allow but the running code accepts.
\<close>

datatype jsval = Undefined | Null | BigNum bignum | Str string | Num int

fun truthy :: "jsval \<Rightarrow> bool" where
  "truthy Undefined = False"
| "truthy Null = False"
| "truthy (BigNum b) = True"
| "truthy (Str s) = (s \<noteq> [])"
| "truthy (Num n) = (n \<noteq> 0)"

record transaction =
  recipient :: string
  amount :: jsval
  useAllAmount :: bool
  feePerByte :: jsval
  gasPrice :: jsval
  gasLimit :: jsval

record tokenAccount =
  balance_t :: bignum
  contractAddress :: string

text \<open>
  What the builders take from outside: \<open>isValidRecipient\<close> (null, here \<open>None\<close>, for a
  valid recipient), BigNumber's parser of strings, and the caller's \<open>isCancelled\<close>
  (\<open>isCancelled env k\<close> is the answer to the \<open>k\<close>-th call). The calls into the
  wallet library are taken to succeed; \<open>bigNumberToLibcoreAmount\<close> keeps the number.
\<close>

record core_env =
  isValidRecipient :: "currency \<Rightarrow> string \<Rightarrow> error option"
  parseBigNumber :: "string \<Rightarrow> bignum"
  isCancelled :: "nat \<Rightarrow> bool"

fun toBigNumber :: "'e core_env_scheme \<Rightarrow> jsval \<Rightarrow> bignum" where
  "toBigNumber env (BigNum b) = b"
| "toBigNumber env (Num n) = Some n"
| "toBigNumber env (Str s) = parseBigNumber env s"
| "toBigNumber env Undefined = None"
| "toBigNumber env Null = None"

text \<open>The calls made on the library's transaction builder, and the built transaction.\<close>

datatype builder_call =
    WipeToAddress string
  | SendToAddress bignum string
  | PickInputs nat nat
  | SetFeesPerByte bignum
  | SetInputData string
  | SetGasLimit bignum
  | SetGasPrice bignum

datatype core_transaction =
    BitcoinLikeTransaction bool "builder_call list"
  | EthereumLikeTransaction "builder_call list"

record 'a opts =
  account_o :: "'a account_scheme"
  tokenAccount_o :: "tokenAccount option"
  transaction_o :: transaction
  isPartial :: bool

text \<open>
  The builders return \<open>Inl\<close> of the error thrown, \<open>Inr None\<close> for the bare \<open>return\<close>
  after a cancellation, \<open>Inr (Some tx)\<close> for the built transaction.
\<close>

definition bitcoin :: "'e core_env_scheme \<Rightarrow> 'a opts \<Rightarrow> error + core_transaction option" where
  "bitcoin env opts =
     (let account = account_o opts; t = transaction_o opts in
      if isValidRecipient env (currency_acc account) (recipient t) \<noteq> None
      then Inl (InvalidAddress (currency_name (currency_acc account)))
      else if \<not> truthy (feePerByte t) then Inl FeeNotLoaded
      else
      let fees = toBigNumber env (feePerByte t);
          finish = (\<lambda>k calls.
            if isCancelled env k then Inr None
            else if isCancelled env (k + 1) then Inr None
            else if isCancelled env (k + 2) then Inr None
            else Inr (Some (BitcoinLikeTransaction (isPartial opts)
                   (calls @ [PickInputs 0 0xffffff, SetFeesPerByte fees]))))
      in
      if isCancelled env 0 then Inr None
      else if isCancelled env 1 then Inr None
      else if useAllAmount t
      then (if isCancelled env 2 then Inr None
            else finish 3 [WipeToAddress (recipient t)])
      else if \<not> truthy (amount t) then Inl (Error ''amount is missing'')
      else if isCancelled env 2 then Inr None
      else if isCancelled env 3 then Inr None
      else finish 4 [SendToAddress (toBigNumber env (amount t)) (recipient t)])"

definition ethereumTransferMethodID :: buffer where
  "ethereumTransferMethodID = hexDecode ''a9059cbb''"

text \<open>
  The payload of a token transfer, lines 151 to 165 of the builder:
  \<^verbatim>\<open>
    const to256 = Buffer.concat([
      Buffer.alloc(12),
      Buffer.from(transaction.recipient.replace("0x", ""), "hex")
    ]);
    invariant(to256.length === 32, "recipient is invalid");
    const amountHex = amount.toString(16);
    const amountBuf = Buffer.from(
      amountHex.length % 2 === 0 ? amountHex : "0" + amountHex,
      "hex"
    );
    const amount256 = Buffer.concat([
      Buffer.alloc(32 - amountBuf.length),
      amountBuf
    ]);
    const data = Buffer.concat([ethereumTransferMethodID, to256, amount256]);
  \<close>
  \<open>Buffer.alloc\<close> of a negative size throws a RangeError.
\<close>

definition tokenTransferData :: "string \<Rightarrow> bignum \<Rightarrow> error + buffer" where
  "tokenTransferData rcpt amt =
     (let to256 = replicate 12 0 @ hexDecode (replace0x rcpt) in
      if length to256 \<noteq> 32 then Inl (InvariantViolation ''recipient is invalid'')
      else
      let amountHex = toString16 amt;
          amountBuf = hexDecode (if length amountHex mod 2 = 0 then amountHex
                                 else CHR ''0'' # amountHex)
      in
      if 32 < length amountBuf then Inl (RangeError ''size'')
      else
      let amount256 = replicate (32 - length amountBuf) 0 @ amountBuf
      in Inr (ethereumTransferMethodID @ to256 @ amount256))"

definition ethereum :: "'e core_env_scheme \<Rightarrow> 'a opts \<Rightarrow> error + core_transaction option" where
  "ethereum env opts =
     (let account = account_o opts; t = transaction_o opts in
      if isValidRecipient env (currency_acc account) (recipient t) \<noteq> None
      then Inl (InvalidAddress (currency_name (currency_acc account)))
      else if \<not> truthy (gasPrice t) \<or> \<not> truthy (gasLimit t) then Inl FeeNotLoaded
      else
      let gasPriceAmount = toBigNumber env (gasPrice t);
          gasLimitAmount = toBigNumber env (gasLimit t);
          finish = (\<lambda>k calls.
            if isCancelled env k then Inr None
            else if isCancelled env (k + 1) then Inr None
            else if isCancelled env (k + 2) then Inr None
            else Inr (Some (EthereumLikeTransaction
                   (calls @ [SetGasLimit gasLimitAmount, SetGasPrice gasPriceAmount]))))
      in
      if isCancelled env 0 then Inr None
      else if isCancelled env 1 then Inr None
      else
      case tokenAccount_o opts of
        Some ta \<Rightarrow>
          (let amt = (if useAllAmount t then balance_t ta else toBigNumber env (amount t)) in
           case tokenTransferData (recipient t) amt of
             Inl e \<Rightarrow> Inl e
           | Inr data \<Rightarrow>
               finish 2 [SetInputData (hexEncode data),
                         SendToAddress (Some 0) (contractAddress ta)])
      | None \<Rightarrow>
          if useAllAmount t
          then (if isCancelled env 2 then Inr None
                else finish 3 [WipeToAddress (recipient t)])
          else if \<not> truthy (amount t) then Inl (Error ''amount is missing'')
          else if isCancelled env 2 then Inr None
          else if isCancelled env 3 then Inr None
          else finish 4 [SendToAddress (toBigNumber env (amount t)) (recipient t)])"

section \<open>Dispatch on the family\<close>

text \<open>
  \<open>byFamily\<close> is an object literal with the own properties \<open>bitcoin\<close> and \<open>ethereum\<close>.
  A lookup \<open>byFamily[key]\<close> of another key goes to \<open>Object.prototype\<close>: the names
  below are functions there, \<open>__proto__\<close> is an object, every other key gives
  undefined. Calling something that is not a function throws a TypeError.
\<close>

definition objectPrototypeFunctions :: "string list" where
  "objectPrototypeFunctions =
     [''constructor'', ''hasOwnProperty'', ''isPrototypeOf'', ''propertyIsEnumerable'',
      ''toLocaleString'', ''toString'', ''valueOf'', ''__defineGetter__'',
      ''__defineSetter__'', ''__lookupGetter__'', ''__lookupSetter__'']"

datatype handler = BitcoinBuilder | EthereumBuilder | InheritedFunction | NotAFunction

definition byFamily :: "string \<Rightarrow> handler" where
  "byFamily key =
     (if key = ''bitcoin'' then BitcoinBuilder
      else if key = ''ethereum'' then EthereumBuilder
      else if key \<in> set objectPrototypeFunctions then InheritedFunction
      else NotAFunction)"

text \<open>
  The default export, \<open>opts => byFamily[opts.account.currency.family](opts)\<close>. A call
  that lands on a method of \<open>Object.prototype\<close> is reported as such, with the key;
  what that method makes of \<open>opts\<close> is not modelled.
\<close>

datatype dispatched = ByBuilder "core_transaction option" | ByObjectPrototype string

definition buildTransaction :: "'e core_env_scheme \<Rightarrow> 'a opts \<Rightarrow> error + dispatched" where
  "buildTransaction env opts =
     (let key = family (currency_acc (account_o opts)) in
      case byFamily key of
        BitcoinBuilder \<Rightarrow> map_sum id ByBuilder (bitcoin env opts)
      | EthereumBuilder \<Rightarrow> map_sum id ByBuilder (ethereum env opts)
      | InheritedFunction \<Rightarrow> Inr (ByObjectPrototype key)
      | NotAFunction \<Rightarrow>
          Inl (TypeError ''byFamily[opts.account.currency.family] is not a function''))"

section \<open>Sample data\<close>

text \<open>Concrete operations, accounts and environments on which the theorems are run.\<close>

definition sample_op :: "string \<Rightarrow> optype \<Rightarrow> int \<Rightarrow> int option \<Rightarrow> operation" where
  "sample_op h ty d n =
     \<lparr>id_op = ''acct-'' @ h @ ''-'' @ optype_string ty, hash = h, accountId = ''acct'',
      type_op = ty, value_op = Some 12, fee_op = Some 2, blockHeight_op = Some 7,
      senders = [''rSender''], recipients = [''rRecipient''], date = d,
      transactionSequenceNumber = n, extra_tag = None\<rparr>"

definition sample_currency :: currency where
  "sample_currency = \<lparr>currency_id = ''ripple'', currency_name = ''XRP'', family = ''ripple''\<rparr>"

definition sample_account :: account where
  "sample_account =
     \<lparr>id_acc = ''acct'', currency_acc = sample_currency, freshAddress = ''rSender'',
      endpointConfig = None, balance = Some 1000, blockHeight = 7,
      operations = [sample_op ''h1'' IN 100 (Some 3)],
      pendingOperations = [sample_op ''h2'' OUT 200 (Some 5)],
      lastSyncDate = 0\<rparr>"

definition sample_server_info :: server_info where
  "sample_server_info = \<lparr>minLedgerVersion = 1, maxLedgerVersion = 50, reserveBaseXRP = Some 20\<rparr>"

definition sample_tx :: "string \<Rightarrow> int \<Rightarrow> int \<Rightarrow> tx" where
  "sample_tx h sq ts =
     \<lparr>tx_id = h, sequence = sq, outcome_fee = Some 2, deliveredAmount = Some (Some 10),
      ledgerVersion = 40, timestamp = ts, source_address = ''rSender'',
      destination_address = ''rRecipient'', destination_tag = None\<rparr>"

text \<open>A chain on which the account does not exist.\<close>

definition env_not_found :: env where
  "env_not_found =
     \<lparr>connect = None, getServerInfo = (\<lambda>_. Inr sample_server_info),
      getAccountInfo = (\<lambda>_. Inl (Error ''actNotFound'')),
      getTransactions = (\<lambda>_ _ _. Inr []), finished = (\<lambda>_. False)\<rparr>"

text \<open>
  The criterion of the specification for dropping a pending operation, in its words:
  its hash appears among the merged confirmed operations, or its sequence number is
  not strictly greater than that of the most recent confirmed operation.
\<close>

definition spec_dropped :: "operation list \<Rightarrow> operation \<Rightarrow> bool" where
  "spec_dropped merged p =
     (list_ex (\<lambda>c. hash p = hash c) merged \<or>
      (case merged of
         [] \<Rightarrow> False
       | newest # _ \<Rightarrow>
           \<not> gt_num (transactionSequenceNumber p) (transactionSequenceNumber newest)))"

text \<open>A validator environment: the recipient exists on the chain and decodes.\<close>

definition sample_status_env :: status_env where
  "sample_status_env =
     \<lparr>connect = None, getServerInfo = (\<lambda>_. Inr sample_server_info),
      getAccountInfo = (\<lambda>_. Inr (Some 1000)),
      getTransactions = (\<lambda>_ _ _. Inr []), finished = (\<lambda>_. False),
      cachedRecipientIsNew = (\<lambda>_ _. Inr False), bs58check_decodes = (\<lambda>_. True),
      formatMinimalAmount = (\<lambda>_. ''XRP 20'')\<rparr>"

definition sample_draft :: "int \<Rightarrow> bignum option \<Rightarrow> ripple_transaction" where
  "sample_draft amt f =
     \<lparr>amount_r = Some amt, recipient_r = ''rRecipient'', fee_r = f, tag_r = None\<rparr>"

text \<open>
  A scan environment with two iterable derivation modes, the canonical one first, on
  a chain that knows none of the addresses.
\<close>

definition sample_scan_env :: scan_env where
  "sample_scan_env =
     \<lparr>connect = None, getServerInfo = (\<lambda>_. Inr sample_server_info),
      getAccountInfo = (\<lambda>_. Inl (Error ''actNotFound'')),
      getTransactions = (\<lambda>_ _ _. Inr []), finished = (\<lambda>_. False),
      open_device = None, derivationModes = [[], ''legacy''],
      isIterableDerivationMode = (\<lambda>_. True),
      derivationModeSupportsIndex = (\<lambda>_ _. True),
      derivationPath = (\<lambda>_ _. ''44h/144h/0h/0/0''),
      getAddress = (\<lambda>_ _. Inr ''rScanned''),
      getNewAccountPlaceholderName = (\<lambda>_ _. ''Ripple 1''),
      getAccountPlaceholderName = (\<lambda>_ _. ''Ripple 1''),
      clock = (\<lambda>_. 555)\<rparr>"

definition scan_start :: scan_state where
  "scan_start = \<lparr>emitted = [], probed = [], reads = 0\<rparr>"

text \<open>
  A builder environment in which every recipient is valid and nothing is cancelled,
  and the options of a call for a given family and a given value of the fee fields.
\<close>

definition sample_core_env :: core_env where
  "sample_core_env =
     \<lparr>isValidRecipient = (\<lambda>_ _. None), parseBigNumber = (\<lambda>_. None),
      isCancelled = (\<lambda>_. False)\<rparr>"

definition sample_opts :: "string \<Rightarrow> jsval \<Rightarrow> unit opts" where
  "sample_opts fam feeField =
     \<lparr>account_o = sample_account\<lparr>currency_acc :=
        \<lparr>currency_id = fam, currency_name = fam, family = fam\<rparr>\<rparr>,
      tokenAccount_o = None,
      transaction_o =
        \<lparr>recipient = ''0x00112233445566778899aabbccddeeff00112233'',
         amount = BigNum (Some 5000), useAllAmount = False,
         feePerByte = feeField, gasPrice = feeField, gasLimit = feeField\<rparr>,
      isPartial = False\<rparr>"

text \<open>
  Two notions used in the proofs about the payload: the number a string of
  hexadecimal digits denotes (continuing from \<open>acc\<close>), and a string made of
  hexadecimal digits only.
\<close>

definition hexValue :: "nat \<Rightarrow> string \<Rightarrow> nat" where
  "hexValue acc s = foldl (\<lambda>a c. 16 * a + the (unhex c)) acc s"

definition isHex :: "string \<Rightarrow> bool" where
  "isHex s = (\<forall>c \<in> set s. \<exists>d < 16. unhex c = Some d)"

text \<open>A token account, and the options of a token transfer of a given amount.\<close>

definition sample_token_opts :: "string \<Rightarrow> int \<Rightarrow> unit opts" where
  "sample_token_opts rcpt amt =
     \<lparr>account_o = sample_account,
      tokenAccount_o = Some \<lparr>balance_t = Some 70000, contractAddress = ''0xTokenContract''\<rparr>,
      transaction_o =
        \<lparr>recipient = rcpt, amount = BigNum (Some amt), useAllAmount = False,
         feePerByte = Undefined, gasPrice = BigNum (Some 3), gasLimit = BigNum (Some 21000)\<rparr>,
      isPartial = False\<rparr>"

section \<open>Properties of mergeOps\<close>

lemma insert_js_by_date:
  "insert_js (\<lambda>a b. date b - date a) x ys = insort_key (\<lambda>p. - date p) x ys"
  by (induction ys) auto

lemma sort_js_by_date:
  "sort_js (\<lambda>a b. date b - date a) xs = sort_key (\<lambda>p. - date p) xs"
  by (induction xs) (auto simp: sort_js_def insert_js_by_date)

lemma mergeOps_sort_key:
  "mergeOps existing newFetched =
     sort_key (\<lambda>p. - date p)
       (existing @ filter (\<lambda>p. id_op p \<notin> id_op ` set existing) newFetched)"
  by (simp add: mergeOps_def Let_def sort_js_by_date)

lemma set_mergeOps:
  "set (mergeOps existing newFetched) =
     set existing \<union> {p \<in> set newFetched. id_op p \<notin> id_op ` set existing}"
  by (auto simp: mergeOps_sort_key)

lemma sorted_mergeOps:
  "sorted (map (\<lambda>p. - date p) (mergeOps existing newFetched))"
  by (simp add: mergeOps_sort_key)

lemma refetched_all_known:
  "filter (\<lambda>p. id_op p \<notin> id_op ` set (mergeOps existing newFetched)) newFetched = []"
  by (auto simp: filter_empty_conv set_mergeOps)

lemma existing_part_mergeOps:
  "filter (\<lambda>p. id_op p \<in> id_op ` set existing) (mergeOps existing newFetched) =
     sort_key (\<lambda>p. - date p) existing"
proof -
  have "filter (\<lambda>p. id_op p \<in> id_op ` set existing)
          (existing @ filter (\<lambda>p. id_op p \<notin> id_op ` set existing) newFetched) = existing"
    by (induction newFetched) (auto simp: filter_id_conv)
  then show ?thesis
    by (simp only: mergeOps_sort_key filter_sort)
qed

text \<open>
  C1. Merging the same fetched list a second time changes nothing, and the operations
  of the result whose id occurs among the existing ones are exactly the existing
  operations, in date order: a fetched operation never replaces or joins an existing
  one of its id.
\<close>

theorem mergeOps_idempotent:
  "mergeOps (mergeOps existing newFetched) newFetched = mergeOps existing newFetched
   \<and> filter (\<lambda>p. id_op p \<in> set (map id_op existing)) (mergeOps existing newFetched)
       = sort_js (\<lambda>a b. date b - date a) existing"
proof
  let ?m = "mergeOps existing newFetched"
  have "mergeOps ?m newFetched = sort_key (\<lambda>p. - date p) ?m"
    by (simp add: mergeOps_sort_key [of ?m] refetched_all_known)
  also have "\<dots> = ?m"
    by (rule sort_key_id_if_sorted) (rule sorted_mergeOps)
  finally show "mergeOps ?m newFetched = ?m" .
next
  show "filter (\<lambda>p. id_op p \<in> set (map id_op existing)) (mergeOps existing newFetched)
          = sort_js (\<lambda>a b. date b - date a) existing"
    by (simp add: existing_part_mergeOps sort_js_by_date)
qed

theorem mergeOps_idempotent_witness:
  "mergeOps
     (mergeOps [sample_op ''h1'' OUT 100 (Some 4)]
        [(sample_op ''h1'' OUT 100 (Some 4))\<lparr>date := 150\<rparr>, sample_op ''h2'' IN 200 (Some 8)])
     [(sample_op ''h1'' OUT 100 (Some 4))\<lparr>date := 150\<rparr>, sample_op ''h2'' IN 200 (Some 8)]
   = [sample_op ''h2'' IN 200 (Some 8), sample_op ''h1'' OUT 100 (Some 4)]"
  using mergeOps_idempotent
    [of "[sample_op ''h1'' OUT 100 (Some 4)]"
        "[(sample_op ''h1'' OUT 100 (Some 4))\<lparr>date := 150\<rparr>, sample_op ''h2'' IN 200 (Some 8)]"]
  by (simp add: mergeOps_def sort_js_def sample_op_def)

lemma descending_mergeOps: "descending_by_date (mergeOps existing newFetched)"
  using sorted_mergeOps [of existing newFetched]
  by (simp add: descending_by_date_def sorted_map)

lemma unique_ids_sort_key: "unique_ids (sort_key f xs) = unique_ids xs"
  by (simp add: unique_ids_def distinct_map)

lemma unique_ids_mergeOps:
  assumes "unique_ids existing" and "unique_ids newFetched"
  shows "unique_ids (mergeOps existing newFetched)"
proof -
  let ?fresh = "filter (\<lambda>p. id_op p \<notin> id_op ` set existing) newFetched"
  have a: "distinct (map id_op ?fresh)"
    using assms(2) by (simp add: unique_ids_def distinct_map_filter)
  have b: "id_op ` set existing \<inter> id_op ` set ?fresh = {}"
    by (auto simp: image_iff)
  have "unique_ids (existing @ ?fresh)"
    using assms(1) a b by (simp add: unique_ids_def)
  then show ?thesis
    by (simp only: mergeOps_sort_key unique_ids_sort_key)
qed

lemma strict_if_distinct_dates:
  "descending_by_date xs \<Longrightarrow> distinct (map date xs) \<Longrightarrow> strictly_descending_by_date xs"
  unfolding descending_by_date_def strictly_descending_by_date_def
  by (induction xs) (auto simp: order_less_le image_iff)

text \<open>
  C2, as the specification states it, fails: a fetched list that holds an operation
  twice keeps both copies (only ids of the existing list are filtered out), and two
  operations of equal date stay next to each other, so the order is not strict.
\<close>

theorem mergeOps_strict_unique_counterexample:
  "\<not> unique_ids (mergeOps [] [sample_op ''h1'' IN 100 (Some 1), sample_op ''h1'' IN 100 (Some 1)])
   \<and> \<not> strictly_descending_by_date
         (mergeOps [sample_op ''h1'' IN 100 (Some 1)] [sample_op ''h2'' IN 100 (Some 2)])"
  by (simp add: mergeOps_def sort_js_def sample_op_def unique_ids_def
        strictly_descending_by_date_def)

lemma count_list_insort_key:
  "count_list (insort_key f x xs) p = count_list (x # xs) p"
  by (induction xs) auto

lemma count_list_sort_key: "count_list (sort_key f xs) p = count_list xs p"
  by (induction xs) (simp_all add: count_list_insort_key)

lemma count_list_filter:
  "count_list (filter P xs) p = (if P p then count_list xs p else 0)"
  by (induction xs) auto

lemma count_list_mergeOps:
  "count_list (mergeOps existing newFetched) p =
     count_list existing p +
     (if id_op p \<in> id_op ` set existing then 0 else count_list newFetched p)"
  by (simp add: mergeOps_sort_key count_list_sort_key count_list_filter)

text \<open>
  C2, amended. The merged list is always descending by date, ties allowed; it has no
  two operations of the same id whenever neither input list has; and it is strictly
  descending whenever no two of its operations carry the same date. What the merge
  keeps is exactly the existing operations and the fetched operations whose id does
  not occur in the existing list, each as often as its list holds it: the only
  operations removed are fetched ones whose id occurs in the existing list, so a
  duplicate inside the fetched list stays.
\<close>

theorem mergeOps_descending_unique:
  "descending_by_date (mergeOps existing newFetched)
   \<and> (unique_ids existing \<and> unique_ids newFetched \<longrightarrow> unique_ids (mergeOps existing newFetched))
   \<and> (distinct (map date (mergeOps existing newFetched)) \<longrightarrow>
        strictly_descending_by_date (mergeOps existing newFetched))
   \<and> set (mergeOps existing newFetched) =
        set existing \<union> {p \<in> set newFetched. id_op p \<notin> id_op ` set existing}
   \<and> (\<forall>p. count_list (mergeOps existing newFetched) p =
          count_list existing p +
          (if id_op p \<in> id_op ` set existing then 0 else count_list newFetched p))"
  by (simp add: descending_mergeOps unique_ids_mergeOps strict_if_distinct_dates
        set_mergeOps count_list_mergeOps)

theorem mergeOps_descending_unique_witness:
  "descending_by_date
     (mergeOps [sample_op ''h1'' OUT 100 (Some 4)]
        [sample_op ''h1'' OUT 100 (Some 4), sample_op ''h2'' IN 200 (Some 8)])
   \<and> unique_ids [sample_op ''h1'' OUT 100 (Some 4)]
   \<and> unique_ids [sample_op ''h1'' OUT 100 (Some 4), sample_op ''h2'' IN 200 (Some 8)]
   \<and> unique_ids
       (mergeOps [sample_op ''h1'' OUT 100 (Some 4)]
          [sample_op ''h1'' OUT 100 (Some 4), sample_op ''h2'' IN 200 (Some 8)])
   \<and> distinct (map date
       (mergeOps [sample_op ''h1'' OUT 100 (Some 4)]
          [sample_op ''h1'' OUT 100 (Some 4), sample_op ''h2'' IN 200 (Some 8)]))
   \<and> strictly_descending_by_date
       (mergeOps [sample_op ''h1'' OUT 100 (Some 4)]
          [sample_op ''h1'' OUT 100 (Some 4), sample_op ''h2'' IN 200 (Some 8)])
   \<and> count_list
       (mergeOps [sample_op ''h1'' OUT 100 (Some 4)]
          [sample_op ''h1'' OUT 100 (Some 4), sample_op ''h2'' IN 200 (Some 8)])
       (sample_op ''h1'' OUT 100 (Some 4)) = 1
   \<and> count_list
       (mergeOps [sample_op ''h1'' OUT 100 (Some 4)]
          [sample_op ''h2'' IN 200 (Some 8), sample_op ''h2'' IN 200 (Some 8)])
       (sample_op ''h2'' IN 200 (Some 8)) = 2
   \<and> set (mergeOps [sample_op ''h1'' OUT 100 (Some 4)]
          [sample_op ''h1'' OUT 100 (Some 4), sample_op ''h2'' IN 200 (Some 8)])
       = {sample_op ''h1'' OUT 100 (Some 4), sample_op ''h2'' IN 200 (Some 8)}"
proof -
  let ?a = "sample_op ''h1'' OUT 100 (Some 4)"
  let ?b = "sample_op ''h2'' IN 200 (Some 8)"
  have u1: "unique_ids [?a]"
    by (simp add: unique_ids_def)
  have u2: "unique_ids [?a, ?b]"
    by (simp add: unique_ids_def sample_op_def)
  have d: "distinct (map date (mergeOps [?a] [?a, ?b]))"
    by (simp add: mergeOps_def sort_js_def sample_op_def)
  have ids: "id_op ?a \<in> id_op ` set [?a]" "id_op ?b \<notin> id_op ` set [?a]"
    by (simp_all add: sample_op_def)
  have ne: "?a \<noteq> ?b"
    by (simp add: sample_op_def)
  note inst = mergeOps_descending_unique [of "[?a]" "[?a, ?b]"]
  note dup = mergeOps_descending_unique [of "[?a]" "[?b, ?b]"]
  have order: "descending_by_date (mergeOps [?a] [?a, ?b])"
    "unique_ids (mergeOps [?a] [?a, ?b])"
    "strictly_descending_by_date (mergeOps [?a] [?a, ?b])"
    using inst u1 u2 d by blast+
  have c1: "count_list (mergeOps [?a] [?a, ?b]) ?a = 1"
    using inst ids by simp
  have c2: "count_list (mergeOps [?a] [?b, ?b]) ?b = 2"
    using dup ids ne by simp
  have s: "set (mergeOps [?a] [?a, ?b]) = {?a, ?b}"
    using inst ids by auto
  from order u1 u2 d c1 c2 s show ?thesis
    by blast
qed

section \<open>Properties of startSync\<close>

lemma startSync_emits_syncUpdate:
  assumes "connect env = None" and "\<not> finished env 0"
    and "getServerInfo env (endpointConfig acc) = Inr si" and "\<not> finished env 1"
    and "getAccountInfo env (freshAddress acc) = Inr (Some b)" and "\<not> finished env 2"
    and "getTransactions env (freshAddress acc)
           (max (if length (operations acc) = 0 then 0 else blockHeight acc) (minLedgerVersion si))
           (maxLedgerVersion si) = Inr txs"
    and "\<not> finished env 3"
  shows "startSync env acc = ([syncUpdate txs (Some b) (maxLedgerVersion si)], Completed)"
  using assms by (simp add: startSync_def)

lemma operations_syncUpdate:
  "operations (syncUpdate txs bal maxLedger now a) =
     mergeOps (operations a) (map (txToOperation a) txs)"
  by (simp add: syncUpdate_def Let_def)

lemma pendingOperations_syncUpdate:
  "pendingOperations (syncUpdate txs bal maxLedger now a) =
     filter (keepPending (operations (syncUpdate txs bal maxLedger now a))) (pendingOperations a)"
  by (simp add: syncUpdate_def Let_def)

text \<open>
  C8. When the chain API rejects the account lookup with "actNotFound" (and the
  subscriber has not left), \<open>startSync\<close> emits exactly one update function and
  completes; applied to any account at any time, that function returns the account
  with \<open>lastSyncDate\<close> set to the clock and every other field as it was, the fields
  beyond the modelled ones included.
\<close>

theorem startSync_not_found_touches_lastSyncDate_only:
  assumes "connect env = None" and "\<not> finished env 0"
    and "getServerInfo env (endpointConfig acc) = Inr si" and "\<not> finished env 1"
    and "getAccountInfo env (freshAddress acc) = Inl e" and "message e = ''actNotFound''"
    and "\<not> finished env 2"
  shows "\<exists>f. startSync env acc = ([f], Completed) \<and>
           (\<forall>now a. f now a = a\<lparr>lastSyncDate := now\<rparr> \<and>
              lastSyncDate (f now a) = now \<and>
              balance (f now a) = balance a \<and>
              blockHeight (f now a) = blockHeight a \<and>
              operations (f now a) = operations a \<and>
              pendingOperations (f now a) = pendingOperations a \<and>
              id_acc (f now a) = id_acc a \<and>
              currency_acc (f now a) = currency_acc a \<and>
              freshAddress (f now a) = freshAddress a \<and>
              endpointConfig (f now a) = endpointConfig a \<and>
              account.more (f now a) = account.more a)"
proof (rule exI [of _ touchLastSync], intro conjI allI)
  show "startSync env acc = ([touchLastSync], Completed)"
    using assms by (simp add: startSync_def)
qed (simp_all add: touchLastSync_def)

theorem startSync_not_found_touches_lastSyncDate_only_witness:
  "\<exists>f. startSync env_not_found sample_account = ([f], Completed) \<and>
     f 999 sample_account = sample_account\<lparr>lastSyncDate := 999\<rparr> \<and>
     balance (f 999 sample_account) = Some 1000 \<and>
     operations (f 999 sample_account) = [sample_op ''h1'' IN 100 (Some 3)] \<and>
     pendingOperations (f 999 sample_account) = [sample_op ''h2'' OUT 200 (Some 5)]"
proof -
  have "\<exists>f. startSync env_not_found sample_account = ([f], Completed) \<and>
           (\<forall>now (a::account). f now a = a\<lparr>lastSyncDate := now\<rparr> \<and>
              lastSyncDate (f now a) = now \<and>
              balance (f now a) = balance a \<and>
              blockHeight (f now a) = blockHeight a \<and>
              operations (f now a) = operations a \<and>
              pendingOperations (f now a) = pendingOperations a \<and>
              id_acc (f now a) = id_acc a \<and>
              currency_acc (f now a) = currency_acc a \<and>
              freshAddress (f now a) = freshAddress a \<and>
              endpointConfig (f now a) = endpointConfig a \<and>
              account.more (f now a) = account.more a)"
    by (rule startSync_not_found_touches_lastSyncDate_only
          [where e = "Error ''actNotFound''" and si = sample_server_info])
       (simp_all add: env_not_found_def)
  then obtain f where f: "startSync env_not_found sample_account = ([f], Completed)"
    and frame: "\<And>now (a::account). f now a = a\<lparr>lastSyncDate := now\<rparr>"
    by blast
  show ?thesis
  proof (rule exI [of _ f], intro conjI)
    show "startSync env_not_found sample_account = ([f], Completed)"
      by (rule f)
  qed (simp_all add: frame sample_account_def)
qed

lemma keepPending_iff:
  "keepPending merged p \<longleftrightarrow>
     \<not> list_ex (\<lambda>c. hash p = hash c) merged \<and>
     (\<exists>newest rest. merged = newest # rest \<and>
        truthy_num (transactionSequenceNumber newest) \<and>
        truthy_num (transactionSequenceNumber p) \<and>
        gt_num (transactionSequenceNumber p) (transactionSequenceNumber newest))"
  by (cases merged) (simp_all add: keepPending_def)

text \<open>
  C10. A pending operation that survives the update implies a non-empty merged list
  whose first (newest) operation has a sequence number that is present and not zero,
  and a sequence number of its own that is present and not zero. Put the other way
  round: if the merged list is empty, or its newest operation has a missing or zero
  sequence number, or the pending operation has, the pending operation is dropped.
\<close>

theorem pending_kept_needs_truthy_sequence_numbers:
  "(p \<in> set (pendingOperations (syncUpdate txs bal maxLedger now a)) \<longrightarrow>
      (\<exists>newest rest.
         operations (syncUpdate txs bal maxLedger now a) = newest # rest \<and>
         truthy_num (transactionSequenceNumber newest) \<and>
         truthy_num (transactionSequenceNumber p)))
   \<and> (operations (syncUpdate txs bal maxLedger now a) = [] \<or>
       (\<exists>newest rest.
          operations (syncUpdate txs bal maxLedger now a) = newest # rest \<and>
          \<not> truthy_num (transactionSequenceNumber newest)) \<or>
       \<not> truthy_num (transactionSequenceNumber p) \<longrightarrow>
      p \<notin> set (pendingOperations (syncUpdate txs bal maxLedger now a)))"
proof -
  let ?s = "syncUpdate txs bal maxLedger now a"
  have kept: "p \<in> set (pendingOperations ?s) \<Longrightarrow> keepPending (operations ?s) p"
    by (simp add: pendingOperations_syncUpdate)
  have first: "p \<in> set (pendingOperations ?s) \<longrightarrow>
      (\<exists>newest rest. operations ?s = newest # rest \<and>
         truthy_num (transactionSequenceNumber newest) \<and>
         truthy_num (transactionSequenceNumber p))"
    using kept keepPending_iff [of "operations ?s" p] by blast
  then have second: "operations ?s = [] \<or>
       (\<exists>newest rest. operations ?s = newest # rest \<and>
          \<not> truthy_num (transactionSequenceNumber newest)) \<or>
       \<not> truthy_num (transactionSequenceNumber p) \<longrightarrow>
      p \<notin> set (pendingOperations ?s)"
    by auto
  from first second show ?thesis
    by (rule conjI)
qed

theorem pending_kept_needs_truthy_sequence_numbers_witness:
  "sample_op ''h2'' OUT 200 (Some 5)
     \<in> set (pendingOperations (syncUpdate [] (Some 900) 50 999 sample_account))
   \<and> (\<exists>newest rest.
         operations (syncUpdate [] (Some 900) 50 999 sample_account) = newest # rest \<and>
         truthy_num (transactionSequenceNumber newest) \<and>
         truthy_num (transactionSequenceNumber (sample_op ''h2'' OUT 200 (Some 5))))
   \<and> operations (syncUpdate [] (Some 900) 50 999 (sample_account\<lparr>operations := []\<rparr>)) = []
   \<and> sample_op ''h2'' OUT 200 (Some 5)
        \<notin> set (pendingOperations
                 (syncUpdate [] (Some 900) 50 999 (sample_account\<lparr>operations := []\<rparr>)))"
proof -
  have kept: "sample_op ''h2'' OUT 200 (Some 5)
     \<in> set (pendingOperations (syncUpdate [] (Some 900) 50 999 sample_account))"
    by (simp add: syncUpdate_def mergeOps_def sort_js_def keepPending_def sample_account_def
          sample_op_def)
  have empty:
    "operations (syncUpdate [] (Some 900) 50 999 (sample_account\<lparr>operations := []\<rparr>)) = []"
    by (simp add: syncUpdate_def mergeOps_def sort_js_def)
  show ?thesis
    using kept empty
      pending_kept_needs_truthy_sequence_numbers
        [of "sample_op ''h2'' OUT 200 (Some 5)" "[]" "Some 900" 50 999 sample_account]
      pending_kept_needs_truthy_sequence_numbers
        [of "sample_op ''h2'' OUT 200 (Some 5)" "[]" "Some 900" 50 999
            "sample_account\<lparr>operations := []\<rparr>"]
    by blast
qed

text \<open>
  C3, as the specification states it, fails: with a newest confirmed operation of
  sequence number 0, a pending operation of sequence number 5 and of another hash is
  dropped, although its hash is not among the confirmed ones and 5 is strictly
  greater than 0.
\<close>

theorem pending_dropped_iff_counterexample:
  "\<not> (sample_op ''h2'' OUT 200 (Some 5)
         \<notin> set (pendingOperations
              (syncUpdate [] (Some 900) 50 999
                 (sample_account
                    \<lparr>operations := [sample_op ''h1'' IN 100 (Some 0)],
                     pendingOperations := [sample_op ''h2'' OUT 200 (Some 5)]\<rparr>)))
       \<longleftrightarrow>
       spec_dropped
         (operations
            (syncUpdate [] (Some 900) 50 999
               (sample_account
                  \<lparr>operations := [sample_op ''h1'' IN 100 (Some 0)],
                   pendingOperations := [sample_op ''h2'' OUT 200 (Some 5)]\<rparr>)))
         (sample_op ''h2'' OUT 200 (Some 5)))"
  by (simp add: syncUpdate_def mergeOps_def sort_js_def keepPending_def spec_dropped_def
        sample_account_def sample_op_def)

text \<open>
  C3, amended. A pending operation is dropped by the update if and only if its hash
  appears among the merged confirmed operations, or the merged list is empty, or the
  sequence number of the newest merged operation (the first of the list) is missing
  or zero, or its own sequence number is missing or zero, or its sequence number is
  not strictly greater than that of the newest merged operation. In particular a
  pending operation of sequence number 5 is dropped once the newest merged operation
  has a sequence number of 5 or more, and a pending operation whose hash is that of a
  merged operation is dropped whatever its sequence number.
\<close>

theorem pending_dropped_iff:
  "(p \<in> set (pendingOperations a) \<longrightarrow>
      (p \<notin> set (pendingOperations (syncUpdate txs bal maxLedger now a)) \<longleftrightarrow>
         list_ex (\<lambda>c. hash p = hash c) (operations (syncUpdate txs bal maxLedger now a)) \<or>
         (case operations (syncUpdate txs bal maxLedger now a) of
            [] \<Rightarrow> True
          | newest # _ \<Rightarrow>
              \<not> truthy_num (transactionSequenceNumber newest) \<or>
              \<not> truthy_num (transactionSequenceNumber p) \<or>
              \<not> gt_num (transactionSequenceNumber p) (transactionSequenceNumber newest))))
   \<and> (transactionSequenceNumber p = Some 5 \<and>
       operations (syncUpdate txs bal maxLedger now a) = newest # rest \<and>
       transactionSequenceNumber newest = Some n \<and> 5 \<le> n \<longrightarrow>
      p \<notin> set (pendingOperations (syncUpdate txs bal maxLedger now a)))
   \<and> (c \<in> set (operations (syncUpdate txs bal maxLedger now a)) \<and> hash c = hash p \<longrightarrow>
      p \<notin> set (pendingOperations (syncUpdate txs bal maxLedger now a)))"
proof (intro conjI impI)
  let ?s = "syncUpdate txs bal maxLedger now a"
  assume "p \<in> set (pendingOperations a)"
  then have "p \<in> set (pendingOperations ?s) \<longleftrightarrow> keepPending (operations ?s) p"
    by (simp add: pendingOperations_syncUpdate)
  then show "p \<notin> set (pendingOperations ?s) \<longleftrightarrow>
         list_ex (\<lambda>c. hash p = hash c) (operations ?s) \<or>
         (case operations ?s of
            [] \<Rightarrow> True
          | newest # _ \<Rightarrow>
              \<not> truthy_num (transactionSequenceNumber newest) \<or>
              \<not> truthy_num (transactionSequenceNumber p) \<or>
              \<not> gt_num (transactionSequenceNumber p) (transactionSequenceNumber newest))"
    by (cases "operations ?s") (auto simp: keepPending_def)
next
  let ?s = "syncUpdate txs bal maxLedger now a"
  assume "transactionSequenceNumber p = Some 5 \<and> operations ?s = newest # rest \<and>
       transactionSequenceNumber newest = Some n \<and> 5 \<le> n"
  then have "\<not> keepPending (operations ?s) p"
    by (simp add: keepPending_def)
  then show "p \<notin> set (pendingOperations ?s)"
    by (simp add: pendingOperations_syncUpdate)
next
  let ?s = "syncUpdate txs bal maxLedger now a"
  assume "c \<in> set (operations ?s) \<and> hash c = hash p"
  then have "list_ex (\<lambda>c. hash p = hash c) (operations ?s)"
    unfolding list_ex_iff by (intro bexI [of _ c]) simp_all
  then have "\<not> keepPending (operations ?s) p"
    by (simp add: keepPending_def)
  then show "p \<notin> set (pendingOperations ?s)"
    by (simp add: pendingOperations_syncUpdate)
qed

theorem pending_dropped_iff_witness:
  "sample_op ''h2'' OUT 200 (Some 5)
     \<in> set (pendingOperations
              (sample_account\<lparr>operations := [sample_op ''h1'' IN 100 (Some 7)]\<rparr>))
   \<and> operations (syncUpdate [] (Some 900) 50 999
        (sample_account\<lparr>operations := [sample_op ''h1'' IN 100 (Some 7)]\<rparr>))
       = [sample_op ''h1'' IN 100 (Some 7)]
   \<and> sample_op ''h2'' OUT 200 (Some 5)
        \<notin> set (pendingOperations (syncUpdate [] (Some 900) 50 999
              (sample_account\<lparr>operations := [sample_op ''h1'' IN 100 (Some 7)]\<rparr>)))
   \<and> txToOperation sample_account (sample_tx ''h2'' 1 300)
        \<in> set (operations (syncUpdate [sample_tx ''h2'' 1 300] (Some 900) 50 999 sample_account))
   \<and> sample_op ''h2'' OUT 200 (Some 5)
        \<notin> set (pendingOperations
                 (syncUpdate [sample_tx ''h2'' 1 300] (Some 900) 50 999 sample_account))"
proof -
  let ?p = "sample_op ''h2'' OUT 200 (Some 5)"
  let ?a = "sample_account\<lparr>operations := [sample_op ''h1'' IN 100 (Some 7)]\<rparr>"
  let ?c = "txToOperation sample_account (sample_tx ''h2'' 1 300)"
  have pending: "?p \<in> set (pendingOperations ?a)"
    by (simp add: sample_account_def)
  have merged_a: "operations (syncUpdate [] (Some 900) 50 999 ?a)
      = [sample_op ''h1'' IN 100 (Some 7)]"
    by (simp add: operations_syncUpdate mergeOps_def sort_js_def)
  have seq_p: "transactionSequenceNumber ?p = Some 5"
    and seq_newest: "transactionSequenceNumber (sample_op ''h1'' IN 100 (Some 7)) = Some 7"
    by (simp_all add: sample_op_def)
  have merged_b:
    "?c \<in> set (operations (syncUpdate [sample_tx ''h2'' 1 300] (Some 900) 50 999 sample_account))"
    by (simp add: operations_syncUpdate set_mergeOps txToOperation_def sample_tx_def
          sample_account_def sample_op_def Let_def)
  have same_hash: "hash ?c = hash ?p"
    by (simp add: txToOperation_def sample_tx_def sample_op_def Let_def)
  have dropped_a: "?p \<notin> set (pendingOperations (syncUpdate [] (Some 900) 50 999 ?a))"
    using pending_dropped_iff
      [where p = ?p and a = ?a and txs = "[]" and bal = "Some 900" and maxLedger = 50
         and now = 999 and newest = "sample_op ''h1'' IN 100 (Some 7)" and rest = "[]"
         and n = 7]
      pending merged_a seq_p seq_newest
    by simp
  have dropped_b: "?p \<notin> set (pendingOperations
      (syncUpdate [sample_tx ''h2'' 1 300] (Some 900) 50 999 sample_account))"
    using pending_dropped_iff
      [where p = ?p and a = sample_account and txs = "[sample_tx ''h2'' 1 300]"
         and bal = "Some 900" and maxLedger = 50 and now = 999 and c = ?c]
      merged_b same_hash
    by blast
  show ?thesis
    using pending merged_a dropped_a merged_b dropped_b by blast
qed

section \<open>Properties of getTransactionStatus\<close>

lemma status_fee_missing:
  assumes "getServerInfo env (endpointConfig a) = Inr r" and "fee_r t = None"
  shows "\<exists>st. getTransactionStatus env a t = Inr st \<and>
           errors st ''fee'' = Some FeeNotLoaded \<and> errors st ''amount'' = None"
  using assms by (simp add: getTransactionStatus_def Let_def)

lemma status_fee_zero:
  assumes "getServerInfo env (endpointConfig a) = Inr r" and "fee_r t = Some f"
    and "eq_bn f (Some 0)"
  shows "\<exists>st. getTransactionStatus env a t = Inr st \<and>
           errors st ''fee'' = Some FeeRequired \<and> errors st ''amount'' = None"
  using assms by (simp add: getTransactionStatus_def Let_def)

lemma status_not_enough_balance:
  assumes "getServerInfo env (endpointConfig a) = Inr r" and "fee_r t = Some f"
    and "\<not> eq_bn f (Some 0)"
    and "gt_bn (plus_bn (amount_r t) f) (minus_bn (balance a) (reserveBaseXRP r))"
  shows "\<exists>st. getTransactionStatus env a t = Inr st \<and>
           errors st ''amount'' = Some NotEnoughBalance \<and> errors st ''fee'' = None \<and>
           totalSpent st = plus_bn (amount_r t) f"
  using assms by (simp add: getTransactionStatus_def Let_def)

lemma status_warning:
  assumes "getTransactionStatus env a t = Inr st"
  shows "estimatedFees st = (case fee_r t of None \<Rightarrow> Some 0 | Some f \<Rightarrow> f)"
    and "warnings st ''feeTooHigh'' = Some FeeTooHigh \<longleftrightarrow>
           gt_bn (amount_r t) (Some 0) \<and>
           gt_bn (times_bn (estimatedFees st) (Some 10)) (amount_r t)"
    and "errors st ''feeTooHigh'' = None"
  using assms
  by (auto simp: getTransactionStatus_def Let_def
           split: sum.splits option.splits if_splits)

text \<open>
  C5. Once the server information is there, the fee checks go in this order, the
  first that applies being the only one reported: a missing fee gives \<open>FeeNotLoaded\<close>
  under the key "fee"; a fee that is present and equal to zero gives \<open>FeeRequired\<close>
  under "fee"; otherwise, if amount plus fee exceeds the balance minus the reserve,
  \<open>NotEnoughBalance\<close> is reported (under the key "amount"). Whatever the errors are,
  every status returned carries the warning \<open>FeeTooHigh\<close> exactly when the amount is
  above zero and ten times the fee (zero when the fee is missing) is above the
  amount; the warning is never entered among the errors.
\<close>

theorem getTransactionStatus_fee_precedence:
  "getServerInfo env (endpointConfig a) = Inr r \<Longrightarrow>
   (fee_r t = None \<longrightarrow>
      (\<exists>st. getTransactionStatus env a t = Inr st \<and>
            errors st ''fee'' = Some FeeNotLoaded \<and> errors st ''amount'' = None))
   \<and> (\<forall>f. fee_r t = Some f \<and> eq_bn f (Some 0) \<longrightarrow>
      (\<exists>st. getTransactionStatus env a t = Inr st \<and>
            errors st ''fee'' = Some FeeRequired \<and> errors st ''amount'' = None))
   \<and> (\<forall>f. fee_r t = Some f \<and> \<not> eq_bn f (Some 0) \<and>
          gt_bn (plus_bn (amount_r t) f) (minus_bn (balance a) (reserveBaseXRP r)) \<longrightarrow>
      (\<exists>st. getTransactionStatus env a t = Inr st \<and>
            errors st ''amount'' = Some NotEnoughBalance \<and> errors st ''fee'' = None \<and>
            totalSpent st = plus_bn (amount_r t) f))
   \<and> (\<forall>st. getTransactionStatus env a t = Inr st \<longrightarrow>
          estimatedFees st = (case fee_r t of None \<Rightarrow> Some 0 | Some f \<Rightarrow> f) \<and>
          (warnings st ''feeTooHigh'' = Some FeeTooHigh \<longleftrightarrow>
             gt_bn (amount_r t) (Some 0) \<and>
             gt_bn (times_bn (estimatedFees st) (Some 10)) (amount_r t)) \<and>
          errors st ''feeTooHigh'' = None)"
  using status_fee_missing [of env a r t]
    status_fee_zero [of env a r t]
    status_not_enough_balance [of env a r t]
    status_warning [of env a t]
  by blast

theorem getTransactionStatus_fee_precedence_witness:
  "(\<exists>st. getTransactionStatus sample_status_env sample_account (sample_draft 100 None) = Inr st \<and>
         errors st ''fee'' = Some FeeNotLoaded \<and> errors st ''amount'' = None)
   \<and> (\<exists>st. getTransactionStatus sample_status_env sample_account
               (sample_draft 100 (Some (Some 0))) = Inr st \<and>
         errors st ''fee'' = Some FeeRequired \<and> errors st ''amount'' = None)
   \<and> (\<exists>st. getTransactionStatus sample_status_env sample_account
               (sample_draft 990 (Some (Some 11))) = Inr st \<and>
         errors st ''amount'' = Some NotEnoughBalance \<and> errors st ''fee'' = None)
   \<and> (\<exists>st. getTransactionStatus sample_status_env sample_account
               (sample_draft 100 (Some (Some 11))) = Inr st \<and>
         warnings st ''feeTooHigh'' = Some FeeTooHigh \<and> errors st ''fee'' = None)"
proof -
  have si: "getServerInfo sample_status_env (endpointConfig sample_account) = Inr sample_server_info"
    by (simp add: sample_status_env_def)
  note prec = getTransactionStatus_fee_precedence [OF si]
  have one: "\<exists>st. getTransactionStatus sample_status_env sample_account (sample_draft 100 None)
        = Inr st \<and> errors st ''fee'' = Some FeeNotLoaded \<and> errors st ''amount'' = None"
    using prec [of "sample_draft 100 None"] by (simp add: sample_draft_def)
  have two: "\<exists>st. getTransactionStatus sample_status_env sample_account
        (sample_draft 100 (Some (Some 0))) = Inr st \<and>
        errors st ''fee'' = Some FeeRequired \<and> errors st ''amount'' = None"
    using prec [of "sample_draft 100 (Some (Some 0))"]
    by (simp add: sample_draft_def eq_bn_def)
  have "gt_bn (plus_bn (amount_r (sample_draft 990 (Some (Some 11)))) (Some 11))
          (minus_bn (balance sample_account) (reserveBaseXRP sample_server_info))"
    by (simp add: sample_draft_def sample_account_def sample_server_info_def
          gt_bn_def plus_bn_def minus_bn_def)
  then have three: "\<exists>st. getTransactionStatus sample_status_env sample_account
        (sample_draft 990 (Some (Some 11))) = Inr st \<and>
        errors st ''amount'' = Some NotEnoughBalance \<and> errors st ''fee'' = None"
    using prec [of "sample_draft 990 (Some (Some 11))"]
    by (simp add: sample_draft_def eq_bn_def) blast
  obtain st where st: "getTransactionStatus sample_status_env sample_account
        (sample_draft 100 (Some (Some 11))) = Inr st" and nofee: "errors st ''fee'' = None"
    by (simp add: getTransactionStatus_def Let_def sample_status_env_def sample_draft_def
          sample_account_def sample_server_info_def eq_bn_def gt_bn_def plus_bn_def
          minus_bn_def lt_bn_def)
  have "warnings st ''feeTooHigh'' = Some FeeTooHigh"
    using prec [of "sample_draft 100 (Some (Some 11))"] st
    by (simp add: sample_draft_def gt_bn_def times_bn_def)
  with st nofee have four: "\<exists>st. getTransactionStatus sample_status_env sample_account
        (sample_draft 100 (Some (Some 11))) = Inr st \<and>
        warnings st ''feeTooHigh'' = Some FeeTooHigh \<and> errors st ''fee'' = None"
    by blast
  from one two three four show ?thesis
    by blast
qed

section \<open>Properties of scanAccountsOnDevice\<close>

lemma scanIndices_not_found:
  assumes "derivationModeSupportsIndex env mode index"
    and "getAddress env (derivationPath env mode index) mode = Inr address"
    and "\<not> finished env (reads st)"
    and "getAccountInfo env address = Inl e" and "message e = ''actNotFound''"
  shows "scanIndices env cur si mode (index # rest) st =
     (Normal,
      st\<lparr>probed := probed st @ [(mode, index)],
         reads := reads st + 1,
         emitted := emitted st @
           (if mode = []
            then [placeholderAccount env cur (maxLedgerVersion si) mode index address
                    (length (emitted st))]
            else [])\<rparr>)"
  using assms by (simp add: Let_def)

lemma index_range_Cons:
  "[0..<(if b then 255 else 1 :: nat)] = 0 # [1..<(if b then 255 else 1)]"
  by (simp add: upt_conv_Cons)

text \<open>
  C6. When the scan reaches a supported index of a derivation mode, the device gives
  the address, the subscriber is still there and the chain API rejects the lookup of
  the address with "actNotFound", then the loop over that mode ends at once: the
  index is the last one probed, whatever indices remain, and one account is emitted
  if the mode is the canonical one (the empty string), none otherwise. The emitted
  account is the placeholder, of balance zero. In particular, when this happens at
  index 0 the whole range of the mode, 255 indices or 1, yields that one placeholder
  for the canonical mode and the single probe of index 0.
\<close>

theorem scan_empty_account_ends_mode:
  "derivationModeSupportsIndex env mode index \<Longrightarrow>
   getAddress env (derivationPath env mode index) mode = Inr address \<Longrightarrow>
   \<not> finished env (reads st) \<Longrightarrow>
   getAccountInfo env address = Inl e \<Longrightarrow> message e = ''actNotFound'' \<Longrightarrow>
   (\<exists>st'. scanIndices env cur si mode (index # rest) st = (Normal, st') \<and>
      probed st' = probed st @ [(mode, index)] \<and>
      emitted st' = emitted st @
        (if mode = []
         then [placeholderAccount env cur (maxLedgerVersion si) mode index address
                 (length (emitted st))]
         else []) \<and>
      balance (placeholderAccount env cur (maxLedgerVersion si) mode index address
                 (length (emitted st))) = Some 0)
   \<and> (index = 0 \<longrightarrow>
        (\<exists>st'. scanIndices env cur si mode
                 [0..<(if isIterableDerivationMode env mode then 255 else 1)] st = (Normal, st') \<and>
           probed st' = probed st @ [(mode, 0)] \<and>
           length (emitted st') = length (emitted st) + (if mode = [] then 1 else 0)))"
proof (intro conjI impI)
  assume a: "derivationModeSupportsIndex env mode index"
    "getAddress env (derivationPath env mode index) mode = Inr address"
    "\<not> finished env (reads st)"
    "getAccountInfo env address = Inl e" "message e = ''actNotFound''"
  show "\<exists>st'. scanIndices env cur si mode (index # rest) st = (Normal, st') \<and>
      probed st' = probed st @ [(mode, index)] \<and>
      emitted st' = emitted st @
        (if mode = []
         then [placeholderAccount env cur (maxLedgerVersion si) mode index address
                 (length (emitted st))]
         else []) \<and>
      balance (placeholderAccount env cur (maxLedgerVersion si) mode index address
                 (length (emitted st))) = Some 0"
    by (simp del: scanIndices.simps add: scanIndices_not_found [OF a] placeholderAccount_def)
  assume "index = 0"
  with a show "\<exists>st'. scanIndices env cur si mode
                 [0..<(if isIterableDerivationMode env mode then 255 else 1)] st = (Normal, st') \<and>
           probed st' = probed st @ [(mode, 0)] \<and>
           length (emitted st') = length (emitted st) + (if mode = [] then 1 else 0)"
    by (simp del: scanIndices.simps add: index_range_Cons scanIndices_not_found)
qed

theorem scan_empty_account_ends_mode_witness:
  "\<exists>st' st''.
     scanIndices sample_scan_env sample_currency sample_server_info [] [0..<255] scan_start
       = (Normal, st') \<and>
     probed st' = [([], 0)] \<and> length (emitted st') = 1 \<and>
     scanIndices sample_scan_env sample_currency sample_server_info ''legacy'' [0..<255] st'
       = (Normal, st'') \<and>
     probed st'' = [([], 0), (''legacy'', 0)] \<and> length (emitted st'') = 1"
proof -
  have iter: "\<And>m. isIterableDerivationMode sample_scan_env m"
    by (simp add: sample_scan_env_def)
  have "\<exists>st'. scanIndices sample_scan_env sample_currency sample_server_info []
                 [0..<(if isIterableDerivationMode sample_scan_env [] then 255 else 1)]
                 scan_start = (Normal, st') \<and>
           probed st' = probed scan_start @ [([], 0)] \<and>
           length (emitted st') = length (emitted scan_start) + (if [] = ([]::string) then 1 else 0)"
    using scan_empty_account_ends_mode
      [where env = sample_scan_env and mode = "[]" and index = 0 and address = "''rScanned''"
         and st = scan_start and e = "Error ''actNotFound''" and cur = sample_currency
         and si = sample_server_info and rest = "[]"]
    by (simp add: sample_scan_env_def)
  then obtain st' where
    first: "scanIndices sample_scan_env sample_currency sample_server_info [] [0..<255] scan_start
              = (Normal, st')"
    and p1: "probed st' = [([], 0)]" and e1: "length (emitted st') = 1"
    by (auto simp: iter scan_start_def)
  have "\<exists>st''. scanIndices sample_scan_env sample_currency sample_server_info ''legacy''
                 [0..<(if isIterableDerivationMode sample_scan_env ''legacy'' then 255 else 1)]
                 st' = (Normal, st'') \<and>
           probed st'' = probed st' @ [(''legacy'', 0)] \<and>
           length (emitted st'') =
             length (emitted st') + (if ''legacy'' = ([]::string) then 1 else 0)"
    using scan_empty_account_ends_mode
      [where env = sample_scan_env and mode = "''legacy''" and index = 0
         and address = "''rScanned''" and st = st' and e = "Error ''actNotFound''"
         and cur = sample_currency and si = sample_server_info and rest = "[]"]
    by (simp add: sample_scan_env_def)
  then obtain st'' where
    second: "scanIndices sample_scan_env sample_currency sample_server_info ''legacy'' [0..<255] st'
               = (Normal, st'')"
    and p2: "probed st'' = [([], 0), (''legacy'', 0)]" and e2: "length (emitted st'') = 1"
    by (auto simp: iter p1 e1)
  from first p1 e1 second p2 e2 show ?thesis
    by blast
qed

section \<open>Properties of the builders and of the dispatch\<close>

text \<open>
  C7, as the specification states it, fails: for the family "ripple", which is not
  registered, the call throws the TypeError of calling undefined; the code has no
  \<open>UnsupportedFamily\<close> error.
\<close>

theorem dispatch_unknown_family_counterexample:
  "buildTransaction sample_core_env (sample_opts ''ripple'' (BigNum (Some 10)))
     = Inl (TypeError ''byFamily[opts.account.currency.family] is not a function'')
   \<and> buildTransaction sample_core_env (sample_opts ''ripple'' (BigNum (Some 10)))
     \<noteq> Inl UnsupportedFamily"
  by (simp add: buildTransaction_def byFamily_def objectPrototypeFunctions_def
        sample_opts_def sample_account_def)

text \<open>
  C7, amended. The family of the account's currency selects the builder: "bitcoin"
  the Bitcoin builder, "ethereum" the Ethereum builder, whose result or error is
  passed on. For every family that is neither of the two nor the name of a method
  inherited from \<open>Object.prototype\<close>, the call fails with a TypeError.
\<close>

theorem dispatch_by_family:
  "(family (currency_acc (account_o opts)) = ''bitcoin'' \<longrightarrow>
      buildTransaction env opts = map_sum id ByBuilder (bitcoin env opts))
   \<and> (family (currency_acc (account_o opts)) = ''ethereum'' \<longrightarrow>
      buildTransaction env opts = map_sum id ByBuilder (ethereum env opts))
   \<and> (family (currency_acc (account_o opts)) \<noteq> ''bitcoin'' \<and>
       family (currency_acc (account_o opts)) \<noteq> ''ethereum'' \<and>
       family (currency_acc (account_o opts)) \<notin> set objectPrototypeFunctions \<longrightarrow>
      buildTransaction env opts =
        Inl (TypeError ''byFamily[opts.account.currency.family] is not a function''))"
  by (simp add: buildTransaction_def byFamily_def)

theorem dispatch_by_family_witness:
  "buildTransaction sample_core_env (sample_opts ''bitcoin'' (BigNum (Some 10)))
     = Inr (ByBuilder (Some (BitcoinLikeTransaction False
         [SendToAddress (Some 5000) ''0x00112233445566778899aabbccddeeff00112233'',
          PickInputs 0 0xffffff, SetFeesPerByte (Some 10)])))
   \<and> buildTransaction sample_core_env (sample_opts ''ethereum'' (BigNum (Some 10)))
     = Inr (ByBuilder (Some (EthereumLikeTransaction
         [SendToAddress (Some 5000) ''0x00112233445566778899aabbccddeeff00112233'',
          SetGasLimit (Some 10), SetGasPrice (Some 10)])))
   \<and> buildTransaction sample_core_env (sample_opts ''stellar'' (BigNum (Some 10)))
     = Inl (TypeError ''byFamily[opts.account.currency.family] is not a function'')"
proof -
  have b: "family (currency_acc (account_o (sample_opts ''bitcoin'' (BigNum (Some 10)))))
      = ''bitcoin''"
    and e: "family (currency_acc (account_o (sample_opts ''ethereum'' (BigNum (Some 10)))))
      = ''ethereum''"
    and s: "family (currency_acc (account_o (sample_opts ''stellar'' (BigNum (Some 10)))))
      = ''stellar''"
    by (simp_all add: sample_opts_def)
  have s': "''stellar'' \<noteq> ''bitcoin'' \<and> ''stellar'' \<noteq> ''ethereum'' \<and>
      ''stellar'' \<notin> set objectPrototypeFunctions"
    by (simp add: objectPrototypeFunctions_def)
  have rb: "bitcoin sample_core_env (sample_opts ''bitcoin'' (BigNum (Some 10)))
      = Inr (Some (BitcoinLikeTransaction False
         [SendToAddress (Some 5000) ''0x00112233445566778899aabbccddeeff00112233'',
          PickInputs 0 0xffffff, SetFeesPerByte (Some 10)]))"
    by (simp add: bitcoin_def sample_core_env_def sample_opts_def Let_def)
  have re: "ethereum sample_core_env (sample_opts ''ethereum'' (BigNum (Some 10)))
      = Inr (Some (EthereumLikeTransaction
         [SendToAddress (Some 5000) ''0x00112233445566778899aabbccddeeff00112233'',
          SetGasLimit (Some 10), SetGasPrice (Some 10)]))"
    by (simp add: ethereum_def sample_core_env_def sample_opts_def Let_def)
  show ?thesis
    using dispatch_by_family [of "sample_opts ''bitcoin'' (BigNum (Some 10))" sample_core_env]
      dispatch_by_family [of "sample_opts ''ethereum'' (BigNum (Some 10))" sample_core_env]
      dispatch_by_family [of "sample_opts ''stellar'' (BigNum (Some 10))" sample_core_env]
    by (simp add: b e s s' rb re)
qed

lemma tokenTransferData_error:
  "tokenTransferData rcpt amt = Inl e \<Longrightarrow>
     e = InvariantViolation ''recipient is invalid'' \<or> e = RangeError ''size''"
  by (auto simp: tokenTransferData_def Let_def split: if_splits)

lemma bitcoin_FeeNotLoaded_iff:
  assumes "isValidRecipient env (currency_acc (account_o opts))
             (recipient (transaction_o opts)) = None"
  shows "bitcoin env opts = Inl FeeNotLoaded \<longleftrightarrow> \<not> truthy (feePerByte (transaction_o opts))"
  using assms by (simp add: bitcoin_def Let_def)

lemma ethereum_FeeNotLoaded_iff:
  assumes "isValidRecipient env (currency_acc (account_o opts))
             (recipient (transaction_o opts)) = None"
  shows "ethereum env opts = Inl FeeNotLoaded \<longleftrightarrow>
           \<not> truthy (gasPrice (transaction_o opts)) \<or> \<not> truthy (gasLimit (transaction_o opts))"
proof (cases "truthy (gasPrice (transaction_o opts)) \<and> truthy (gasLimit (transaction_o opts))")
  case False
  with assms show ?thesis
    by (auto simp: ethereum_def Let_def)
next
  case True
  have "ethereum env opts \<noteq> Inl FeeNotLoaded"
    using assms True
    by (auto simp: ethereum_def Let_def split: option.splits sum.splits if_splits
             dest: tokenTransferData_error)
  with True show ?thesis
    by simp
qed

lemma builders_invalid_recipient:
  assumes "isValidRecipient env (currency_acc (account_o opts))
             (recipient (transaction_o opts)) \<noteq> None"
  shows "bitcoin env opts = Inl (InvalidAddress (currency_name (currency_acc (account_o opts))))"
    and "ethereum env opts = Inl (InvalidAddress (currency_name (currency_acc (account_o opts))))"
  using assms by (simp_all add: bitcoin_def ethereum_def Let_def)

text \<open>
  C9, as stated, fails: a draft whose \<open>feePerByte\<close> is the BigNumber zero, a value of
  the declared type of the field, passes the presence test of the Bitcoin builder
  (an object is truthy), and the transaction is built with a fee rate of zero. And
  when the recipient is invalid, even the plain number 0 in \<open>feePerByte\<close> gives
  \<open>InvalidAddress\<close>, not \<open>FeeNotLoaded\<close>, the recipient being checked first.
\<close>

theorem bitcoin_zero_fee_counterexample:
  "bitcoin sample_core_env (sample_opts ''bitcoin'' (BigNum (Some 0)))
     = Inr (Some (BitcoinLikeTransaction False
         [SendToAddress (Some 5000) ''0x00112233445566778899aabbccddeeff00112233'',
          PickInputs 0 0xffffff, SetFeesPerByte (Some 0)]))
   \<and> bitcoin sample_core_env (sample_opts ''bitcoin'' (BigNum (Some 0))) \<noteq> Inl FeeNotLoaded
   \<and> bitcoin (sample_core_env\<lparr>isValidRecipient := (\<lambda>_ _. Some (Error ''invalid''))\<rparr>)
        (sample_opts ''bitcoin'' (Num 0)) \<noteq> Inl FeeNotLoaded"
  by (simp add: bitcoin_def sample_core_env_def sample_opts_def Let_def)

text \<open>
  C9, amended. Presence of the fee fields is tested by truthiness, after the
  recipient has been validated. For a draft with a valid recipient the Bitcoin
  builder throws \<open>FeeNotLoaded\<close> exactly when \<open>feePerByte\<close> is falsy, and the Ethereum
  builder exactly when \<open>gasPrice\<close> or \<open>gasLimit\<close> is falsy; with an invalid recipient
  both throw \<open>InvalidAddress\<close> whatever the fee fields hold. Falsy are undefined,
  null, the empty string and the plain number 0; a BigNumber, zero included, and the
  string "0" are truthy.
\<close>

theorem builders_fee_presence_by_truthiness:
  "(isValidRecipient env (currency_acc (account_o opts)) (recipient (transaction_o opts)) = None
      \<longrightarrow>
      (bitcoin env opts = Inl FeeNotLoaded \<longleftrightarrow> \<not> truthy (feePerByte (transaction_o opts))) \<and>
      (ethereum env opts = Inl FeeNotLoaded \<longleftrightarrow>
         \<not> truthy (gasPrice (transaction_o opts)) \<or> \<not> truthy (gasLimit (transaction_o opts))))
   \<and> (isValidRecipient env (currency_acc (account_o opts)) (recipient (transaction_o opts)) \<noteq> None
      \<longrightarrow>
      bitcoin env opts = Inl (InvalidAddress (currency_name (currency_acc (account_o opts)))) \<and>
      ethereum env opts = Inl (InvalidAddress (currency_name (currency_acc (account_o opts)))))
   \<and> \<not> truthy Undefined \<and> \<not> truthy Null \<and> \<not> truthy (Str []) \<and> \<not> truthy (Num 0)
   \<and> truthy (BigNum (Some 0)) \<and> truthy (Str ''0'')"
  using bitcoin_FeeNotLoaded_iff [of env opts] ethereum_FeeNotLoaded_iff [of env opts]
    builders_invalid_recipient [of env opts]
  by simp

theorem builders_fee_presence_by_truthiness_witness:
  "bitcoin sample_core_env (sample_opts ''bitcoin'' (Num 0)) = Inl FeeNotLoaded
   \<and> ethereum sample_core_env (sample_opts ''ethereum'' Null) = Inl FeeNotLoaded
   \<and> bitcoin sample_core_env (sample_opts ''bitcoin'' (Str ''0'')) \<noteq> Inl FeeNotLoaded
   \<and> ethereum sample_core_env (sample_opts ''ethereum'' (BigNum (Some 0))) \<noteq> Inl FeeNotLoaded
   \<and> bitcoin (sample_core_env\<lparr>isValidRecipient := (\<lambda>_ _. Some (Error ''invalid''))\<rparr>)
        (sample_opts ''bitcoin'' (Num 0)) = Inl (InvalidAddress ''bitcoin'')"
proof -
  have valid: "\<And>fam v. isValidRecipient sample_core_env
      (currency_acc (account_o (sample_opts fam v)))
      (recipient (transaction_o (sample_opts fam v))) = None"
    by (simp add: sample_core_env_def)
  have invalid: "isValidRecipient (sample_core_env\<lparr>isValidRecipient := (\<lambda>_ _. Some (Error ''invalid''))\<rparr>)
      (currency_acc (account_o (sample_opts ''bitcoin'' (Num 0))))
      (recipient (transaction_o (sample_opts ''bitcoin'' (Num 0)))) \<noteq> None"
    by simp
  have fields: "\<And>fam v. feePerByte (transaction_o (sample_opts fam v)) = v"
    "\<And>fam v. gasPrice (transaction_o (sample_opts fam v)) = v"
    "\<And>fam v. gasLimit (transaction_o (sample_opts fam v)) = v"
    "\<And>fam v. currency_name (currency_acc (account_o (sample_opts fam v))) = fam"
    by (simp_all add: sample_opts_def)
  show ?thesis
    using builders_fee_presence_by_truthiness
        [of sample_core_env "sample_opts ''bitcoin'' (Num 0)"]
      builders_fee_presence_by_truthiness
        [of sample_core_env "sample_opts ''ethereum'' Null"]
      builders_fee_presence_by_truthiness
        [of sample_core_env "sample_opts ''bitcoin'' (Str ''0'')"]
      builders_fee_presence_by_truthiness
        [of sample_core_env "sample_opts ''ethereum'' (BigNum (Some 0))"]
      builders_fee_presence_by_truthiness
        [of "sample_core_env\<lparr>isValidRecipient := (\<lambda>_ _. Some (Error ''invalid''))\<rparr>"
            "sample_opts ''bitcoin'' (Num 0)"]
      invalid
    by (simp add: valid fields)
qed

section \<open>Properties of the token transfer payload\<close>

lemma unhex_hexDigit: "d < 16 \<Longrightarrow> unhex (hexDigit d) = Some d"
proof -
  assume "d < 16"
  then have "d = 0 \<or> d = 1 \<or> d = 2 \<or> d = 3 \<or> d = 4 \<or> d = 5 \<or> d = 6 \<or> d = 7 \<or>
      d = 8 \<or> d = 9 \<or> d = 10 \<or> d = 11 \<or> d = 12 \<or> d = 13 \<or> d = 14 \<or> d = 15"
    by arith
  then show ?thesis
    by (elim disjE) (simp_all add: hexDigit_def unhex_def)
qed

lemma isHex_toHex: "isHex (toHex n)"
proof (induction n rule: toHex.induct)
  case (1 n)
  show ?case
  proof (cases "n < 16")
    case True
    then show ?thesis
      by (subst toHex.simps) (auto simp: isHex_def unhex_hexDigit)
  next
    case False
    then have "isHex (toHex (n div 16))" using 1 by simp
    moreover have "unhex (hexDigit (n mod 16)) = Some (n mod 16)"
      by (simp add: unhex_hexDigit)
    ultimately show ?thesis
      using False by (subst toHex.simps) (auto simp: isHex_def)
  qed
qed

lemma hexValue_toHex: "hexValue 0 (toHex n) = n"
proof (induction n rule: toHex.induct)
  case (1 n)
  show ?case
  proof (cases "n < 16")
    case True
    then show ?thesis
      by (subst toHex.simps) (simp add: hexValue_def unhex_hexDigit)
  next
    case False
    then have "hexValue 0 (toHex (n div 16)) = n div 16" using 1 by simp
    then show ?thesis
      using False
      by (subst toHex.simps) (simp add: hexValue_def unhex_hexDigit)
  qed
qed

lemma length_toHex: "0 < k \<Longrightarrow> n < 16 ^ k \<Longrightarrow> length (toHex n) \<le> k"
proof (induction n arbitrary: k rule: toHex.induct)
  case (1 n)
  show ?case
  proof (cases "n < 16")
    case True
    then show ?thesis using 1(2)
      by (subst toHex.simps) simp
  next
    case False
    then obtain j where k: "k = Suc j" and j: "0 < j"
      using 1(2,3) by (cases k; cases "k - 1") auto
    have "n div 16 < 16 ^ j"
      using 1(3) k by (simp add: less_mult_imp_div_less mult.commute)
    then have "length (toHex (n div 16)) \<le> j"
      using 1(1) [OF False j] by simp
    then show ?thesis
      using False k by (subst toHex.simps) simp
  qed
qed

lemma hexDecode_value:
  "isHex s \<Longrightarrow> even (length s) \<Longrightarrow>
     foldl (\<lambda>acc b. 256 * acc + b) acc (hexDecode s) = hexValue acc s
     \<and> length (hexDecode s) = length s div 2
     \<and> (\<forall>b \<in> set (hexDecode s). b < 256)"
proof (induction s arbitrary: acc rule: hexDecode.induct)
  case (1 a b rest)
  then obtain x y where x: "unhex a = Some x" "x < 16" and y: "unhex b = Some y" "y < 16"
    by (auto simp: isHex_def)
  have "isHex rest" "even (length rest)"
    using 1(2,3) by (auto simp: isHex_def)
  then have ih: "\<And>acc. foldl (\<lambda>acc b. 256 * acc + b) acc (hexDecode rest) = hexValue acc rest"
    "length (hexDecode rest) = length rest div 2" "\<forall>b \<in> set (hexDecode rest). b < 256"
    using 1(1) [OF refl x(1) y(1)] by simp_all
  show ?case
    using x y by (simp add: ih) (simp add: hexValue_def add.assoc)
qed (simp_all add: hexValue_def)

lemma bigEndian_zeros: "bigEndian (replicate k 0 @ xs) = bigEndian xs"
  by (induction k) (simp_all add: bigEndian_def)

lemma hexValue_leading_zero: "hexValue 0 (CHR ''0'' # s) = hexValue 0 s"
  by (simp add: hexValue_def unhex_def)

lemma isHex_leading_zero: "isHex s \<Longrightarrow> isHex (CHR ''0'' # s)"
  by (simp add: isHex_def unhex_def)

lemma amountBuf_of_nat:
  assumes "n < 2 ^ 256"
  shows "bigEndian (hexDecode (if length (toHex n) mod 2 = 0 then toHex n
                                else CHR ''0'' # toHex n)) = n"
    and "length (hexDecode (if length (toHex n) mod 2 = 0 then toHex n
                             else CHR ''0'' # toHex n)) \<le> 32"
    and "\<forall>b \<in> set (hexDecode (if length (toHex n) mod 2 = 0 then toHex n
                                else CHR ''0'' # toHex n)). b < 256"
proof -
  let ?p = "if length (toHex n) mod 2 = 0 then toHex n else CHR ''0'' # toHex n"
  have hex: "isHex ?p"
    by (simp add: isHex_toHex isHex_leading_zero)
  have ev: "even (length ?p)"
    by (auto simp: even_iff_mod_2_eq_zero) presburger
  have val: "hexValue 0 ?p = n"
    by (simp add: hexValue_toHex hexValue_leading_zero)
  have "n < 16 ^ 64"
    using assms(1) by simp
  then have "length (toHex n) \<le> 64"
    by (intro length_toHex) simp_all
  then have len: "length ?p \<le> 64"
    using ev by (auto split: if_splits) presburger
  note dec = hexDecode_value [OF hex ev, of 0]
  show "bigEndian (hexDecode ?p) = n"
    using dec val by (simp add: bigEndian_def)
  show "length (hexDecode ?p) \<le> 32"
    using dec len by simp
  show "\<forall>b \<in> set (hexDecode ?p). b < 256"
    using dec by simp
qed

lemma methodID_bytes: "ethereumTransferMethodID = [169, 5, 156, 187]"
  by (simp add: ethereumTransferMethodID_def unhex_def)

lemma tokenTransferData_ok:
  assumes "length (hexDecode (replace0x rcpt)) = 20" and "0 \<le> n" and "n < 2 ^ 256"
  shows "\<exists>amount256.
           tokenTransferData rcpt (Some n) =
             Inr ([169, 5, 156, 187] @ replicate 12 0 @ hexDecode (replace0x rcpt) @ amount256) \<and>
           length amount256 = 32 \<and> int (bigEndian amount256) = n \<and>
           (\<forall>b \<in> set amount256. b < 256)"
proof -
  let ?h = "toHex (nat n)"
  let ?buf = "hexDecode (if length ?h mod 2 = 0 then ?h else CHR ''0'' # ?h)"
  let ?amount256 = "replicate (32 - length ?buf) 0 @ ?buf"
  have small: "nat n < 2 ^ 256"
    using assms(2,3) by (simp add: nat_less_iff)
  note buf = amountBuf_of_nat [OF small]
  have str: "toString16 (Some n) = ?h"
    using assms(2) by (simp add: toString16_def)
  have "tokenTransferData rcpt (Some n) =
      Inr ([169, 5, 156, 187] @ replicate 12 0 @ hexDecode (replace0x rcpt) @ ?amount256)"
    using assms(1) buf(2)
    by (simp add: tokenTransferData_def str methodID_bytes Let_def)
  moreover have "length ?amount256 = 32"
    using buf(2) by simp
  moreover have "int (bigEndian ?amount256) = n"
    using buf(1) assms(2) by (simp add: bigEndian_zeros)
  moreover have "\<forall>b \<in> set ?amount256. b < 256"
    using buf(3) by auto
  ultimately show ?thesis
    by blast
qed

lemma tokenTransferData_bad_recipient:
  "length (hexDecode (replace0x rcpt)) \<noteq> 20 \<Longrightarrow>
     tokenTransferData rcpt amt = Inl (InvariantViolation ''recipient is invalid'')"
  by (simp add: tokenTransferData_def)

lemma toHex_255: "toHex 255 = ''ff''"
  by (simp add: toHex.simps hexDigit_def)

lemma tokenTransferData_255:
  "length (hexDecode (replace0x rcpt)) = 20 \<Longrightarrow>
     tokenTransferData rcpt (Some 255) =
       Inr ([169, 5, 156, 187] @ replicate 12 0 @ hexDecode (replace0x rcpt) @
            replicate 31 0 @ [255])"
  by (simp add: tokenTransferData_def toString16_def toHex_255 unhex_def methodID_bytes)

text \<open>
  In the Ethereum builder, a token account, a valid recipient, truthy gas fields and
  no cancellation lead to the payload being set as input data, in hexadecimal, on a
  call of zero value to the token contract.
\<close>

lemma ethereum_token_transfer:
  assumes "isValidRecipient env (currency_acc (account_o opts))
             (recipient (transaction_o opts)) = None"
    and "truthy (gasPrice (transaction_o opts))" and "truthy (gasLimit (transaction_o opts))"
    and "\<forall>k. \<not> isCancelled env k"
    and "tokenAccount_o opts = Some ta"
    and "tokenTransferData (recipient (transaction_o opts))
           (if useAllAmount (transaction_o opts) then balance_t ta
            else toBigNumber env (amount (transaction_o opts))) = Inr data"
  shows "ethereum env opts =
     Inr (Some (EthereumLikeTransaction
       [SetInputData (hexEncode data), SendToAddress (Some 0) (contractAddress ta),
        SetGasLimit (toBigNumber env (gasLimit (transaction_o opts))),
        SetGasPrice (toBigNumber env (gasPrice (transaction_o opts)))]))"
  using assms by (simp add: ethereum_def Let_def)

text \<open>
  C4, as the specification states it, fails in the error it names: a recipient that
  decodes to 19 bytes makes the builder's invariant fail, which throws an invariant
  violation with the message "recipient is invalid"; no \<open>EncodingError\<close> exists in
  the code.
\<close>

theorem token_recipient_error_counterexample:
  "tokenTransferData ''0x00112233445566778899aabbccddeeff001122'' (Some 255)
     = Inl (InvariantViolation ''recipient is invalid'')
   \<and> tokenTransferData ''0x00112233445566778899aabbccddeeff001122'' (Some 255)
     \<noteq> Inl EncodingError"
  by (simp add: tokenTransferData_def unhex_def)

text \<open>
  C4, amended. The payload of a token transfer is the four bytes a9 05 9c bb, then
  twelve zero bytes and the 20 bytes the recipient decodes to (after the first "0x"
  is removed), then, for an amount from 0 to 2^256 - 1, 32 bytes whose big-endian
  value is the amount. A recipient that decodes to any other number of bytes fails
  with the invariant violation "recipient is invalid". The amount 255 gives 31 zero
  bytes followed by the byte 255.
\<close>

theorem token_transfer_payload:
  "(length (hexDecode (replace0x rcpt)) = 20 \<and> 0 \<le> n \<and> n < 2 ^ 256 \<longrightarrow>
      (\<exists>amount256.
         tokenTransferData rcpt (Some n) =
           Inr ([169, 5, 156, 187] @ replicate 12 0 @ hexDecode (replace0x rcpt) @ amount256) \<and>
         length amount256 = 32 \<and> int (bigEndian amount256) = n \<and>
         (\<forall>b \<in> set amount256. b < 256)))
   \<and> (length (hexDecode (replace0x rcpt)) \<noteq> 20 \<longrightarrow>
        tokenTransferData rcpt amt = Inl (InvariantViolation ''recipient is invalid''))
   \<and> (length (hexDecode (replace0x rcpt)) = 20 \<longrightarrow>
        tokenTransferData rcpt (Some 255) =
          Inr ([169, 5, 156, 187] @ replicate 12 0 @ hexDecode (replace0x rcpt) @
               replicate 31 0 @ [255]))"
  using tokenTransferData_ok [of rcpt n] tokenTransferData_bad_recipient [of rcpt amt]
    tokenTransferData_255 [of rcpt]
  by blast

theorem token_transfer_payload_witness:
  "length (hexDecode (replace0x ''0x00112233445566778899aabbccddeeff00112233'')) = 20
   \<and> (\<exists>amount256.
        tokenTransferData ''0x00112233445566778899aabbccddeeff00112233'' (Some 2748) =
          Inr ([169, 5, 156, 187] @ replicate 12 0 @
               hexDecode (replace0x ''0x00112233445566778899aabbccddeeff00112233'') @
               amount256) \<and>
        length amount256 = 32 \<and> int (bigEndian amount256) = 2748)
   \<and> tokenTransferData ''0x00112233445566778899aabbccddeeff00112233'' (Some 255) =
        Inr ([169, 5, 156, 187] @ replicate 12 0 @
             [0, 17, 34, 51, 68, 85, 102, 119, 136, 153, 170, 187, 204, 221, 238, 255,
              0, 17, 34, 51] @
             replicate 31 0 @ [255])
   \<and> length (hexDecode (replace0x ''0x0011'')) \<noteq> 20
   \<and> tokenTransferData ''0x0011'' (Some 255) = Inl (InvariantViolation ''recipient is invalid'')
   \<and> ethereum sample_core_env
        (sample_token_opts ''0x00112233445566778899aabbccddeeff00112233'' 255) =
        Inr (Some (EthereumLikeTransaction
          [SetInputData
             (''a9059cbb'' @
              ''00000000000000000000000000112233445566778899aabbccddeeff00112233'' @
              ''00000000000000000000000000000000000000000000000000000000000000ff''),
           SendToAddress (Some 0) ''0xTokenContract'',
           SetGasLimit (Some 21000), SetGasPrice (Some 3)]))"
proof -
  have dec: "hexDecode (replace0x ''0x00112233445566778899aabbccddeeff00112233'') =
      [0, 17, 34, 51, 68, 85, 102, 119, 136, 153, 170, 187, 204, 221, 238, 255, 0, 17, 34, 51]"
    by (simp add: unhex_def)
  have len: "length (hexDecode (replace0x ''0x00112233445566778899aabbccddeeff00112233'')) = 20"
    by (simp only: dec) simp
  have short: "length (hexDecode (replace0x ''0x0011'')) \<noteq> 20"
    by (simp add: unhex_def)
  have range: "(0::int) \<le> 2748 \<and> (2748::int) < 2 ^ 256"
    by simp
  have a: "\<exists>amount256.
        tokenTransferData ''0x00112233445566778899aabbccddeeff00112233'' (Some 2748) =
          Inr ([169, 5, 156, 187] @ replicate 12 0 @
               hexDecode (replace0x ''0x00112233445566778899aabbccddeeff00112233'') @
               amount256) \<and>
        length amount256 = 32 \<and> int (bigEndian amount256) = 2748"
    using len range
      token_transfer_payload
        [of "''0x00112233445566778899aabbccddeeff00112233''" 2748 "Some 255"]
    by blast
  have "tokenTransferData ''0x00112233445566778899aabbccddeeff00112233'' (Some 255) =
        Inr ([169, 5, 156, 187] @ replicate 12 0 @
             hexDecode (replace0x ''0x00112233445566778899aabbccddeeff00112233'') @
             replicate 31 0 @ [255])"
    using len
      token_transfer_payload
        [of "''0x00112233445566778899aabbccddeeff00112233''" 2748 "Some 255"]
    by blast
  then have b: "tokenTransferData ''0x00112233445566778899aabbccddeeff00112233'' (Some 255) =
        Inr ([169, 5, 156, 187] @ replicate 12 0 @
             [0, 17, 34, 51, 68, 85, 102, 119, 136, 153, 170, 187, 204, 221, 238, 255,
              0, 17, 34, 51] @
             replicate 31 0 @ [255])"
    by (simp only: dec)
  have c: "tokenTransferData ''0x0011'' (Some 255) = Inl (InvariantViolation ''recipient is invalid'')"
    using short token_transfer_payload [of "''0x0011''" 2748 "Some 255"]
    by blast
  have d: "ethereum sample_core_env
        (sample_token_opts ''0x00112233445566778899aabbccddeeff00112233'' 255) =
        Inr (Some (EthereumLikeTransaction
          [SetInputData
             (''a9059cbb'' @
              ''00000000000000000000000000112233445566778899aabbccddeeff00112233'' @
              ''00000000000000000000000000000000000000000000000000000000000000ff''),
           SendToAddress (Some 0) ''0xTokenContract'',
           SetGasLimit (Some 21000), SetGasPrice (Some 3)]))"
  proof -
    have zeros: "replicate 12 (0::nat) = [0, 0, 0, 0, 0, 0, 0, 0, 0, 0, 0, 0]"
      "replicate 31 (0::nat) =
         [0, 0, 0, 0, 0, 0, 0, 0, 0, 0, 0, 0, 0, 0, 0, 0, 0, 0, 0, 0, 0, 0, 0, 0, 0, 0, 0, 0, 0, 0, 0]"
      by (simp_all add: eval_nat_numeral)
    show ?thesis
      by (simp add: ethereum_def Let_def sample_core_env_def sample_token_opts_def b zeros
            hexEncode_def hexDigit_def)
  qed
  from len a b short c d show ?thesis
    by blast
qed

end
